theory Spec2Isabelle
  imports Complex_Main "HOL-Library.Multiset"
begin

section \<open>The vector store of utils/pgvector_db.py\<close>

text \<open>
  The module keeps two tables in PostgreSQL, \<open>chat_history\<close> and \<open>pdf_embeddings\<close>, and
  works on them through SQLAlchemy sessions. The embedding model, the distance operator
  of pgvector, the clock and the database server are outside the module: they are the
  parameters of the model. Calls are modelled one after the other (no concurrency).
\<close>

subsection \<open>Rows and tables\<close>

text \<open>
  A row of \<open>chat_history\<close>. The primary key is \<open>str(uuid.uuid4())\<close>, filled in by the column
  default when the row is flushed; identifiers are modelled as a supply of fresh numbers.
  The timestamp is a Python float read from \<open>time.time()\<close>; the code only compares
  timestamps, so a real number stands for it. The embedding type \<open>'v\<close> is left open.
\<close>

record 'v ChatHistory =
  ch_id :: nat
  ch_user_id :: string
  ch_message :: string
  ch_embedding :: 'v
  ch_timestamp :: real

record 'v PDFEmbedding =
  pdf_id :: nat
  pdf_user_id :: string
  pdf_filename :: string
  pdf_source :: string
  pdf_is_public :: int
  pdf_chunk_text :: string
  pdf_embedding :: 'v
  pdf_metadata_json :: string

text \<open>
  The committed contents of the database. Each table is the list of its rows in the
  order of insertion; \<open>next_uuid\<close> is the next unused identifier.
\<close>

record 'v database =
  chat_history :: "'v ChatHistory list"
  pdf_embeddings :: "'v PDFEmbedding list"
  next_uuid :: nat

definition CHAT_HISTORY_LIMIT :: nat where
  "CHAT_HISTORY_LIMIT = 10"

subsection \<open>Documents\<close>

text \<open>
  A langchain \<open>Document\<close> is a text with a metadata dictionary. \<open>insert_new_chunks\<close> reads
  the keys \<open>user_id\<close>, \<open>filename\<close>, \<open>source\<close> and \<open>is_public\<close> with \<open>dict.get\<close>; each may
  be absent. Their values have the types of the columns they are stored in.
\<close>

record metadata =
  md_user_id :: "string option"
  md_filename :: "string option"
  md_source :: "string option"
  md_is_public :: "int option"
  md_other :: "(string \<times> string) list"

record Document =
  page_content :: string
  metadata :: metadata

definition dict_get :: "'a option \<Rightarrow> 'a \<Rightarrow> 'a" where
  "dict_get entry dflt = (case entry of None \<Rightarrow> dflt | Some x \<Rightarrow> x)"

text \<open>
  The documents built by \<open>retrieve_user_memory\<close> (metadata keys \<open>user_id\<close>, \<open>timestamp\<close>)
  and by \<open>retrieve_pdf_for_user\<close> (keys \<open>user_id\<close>, \<open>filename\<close>, \<open>source\<close>, \<open>is_public\<close>).
\<close>

record ChatDocument =
  cd_page_content :: string
  cd_user_id :: string
  cd_timestamp :: real

record PDFDocument =
  pd_page_content :: string
  pd_user_id :: string
  pd_filename :: string
  pd_source :: string
  pd_is_public :: int

subsection \<open>The services the module calls\<close>

datatype error = EmbeddingError | OperationalError | DataError

text \<open>
  \<^item> \<open>embed_query\<close>, \<open>embed_documents\<close>: the OpenAI embedding client; either may raise.
  \<^item> \<open>cosine_distance\<close>: the pgvector operator; PostgreSQL compares its float8 results
    in a linear order, for which the reals stand.
  \<^item> \<open>server_up\<close>: whether the database server answers the statements of this call.
  \<^item> \<open>scan_chat\<close>, \<open>scan_pdf\<close>: the order in which the server reads the rows of a table
    before it sorts them. SQL leaves the order of rows with equal sort keys open; in
    the model the sort is stable, so rows with equal keys come out in scan order, and
    every outcome SQL allows is the outcome for some scan.
  \<^item> \<open>py_str\<close>: Python's \<open>str\<close> on a metadata dictionary.
\<close>

record 'v backend =
  embed_query :: "string \<Rightarrow> error + 'v"
  embed_documents :: "string list \<Rightarrow> error + 'v list"
  cosine_distance :: "'v \<Rightarrow> 'v \<Rightarrow> real"
  server_up :: bool
  scan_chat :: "'v ChatHistory list \<Rightarrow> 'v ChatHistory list"
  scan_pdf :: "'v PDFEmbedding list \<Rightarrow> 'v PDFEmbedding list"
  py_str :: "metadata \<Rightarrow> string"

text \<open>A scan reads every row of the table once.\<close>

definition is_scan :: "('r list \<Rightarrow> 'r list) \<Rightarrow> bool" where
  "is_scan scan = (\<forall>rows. mset (scan rows) = mset rows)"

subsection \<open>Sessions\<close>

text \<open>
  A session holds the changes made since it was opened: the rows marked by
  \<open>session.delete\<close> (by primary key) and the objects passed to \<open>session.add\<close>. \<open>commit\<close>
  writes them to the database, \<open>rollback\<close> drops them.
\<close>

record 'v session =
  base :: "'v database"
  deleted :: "nat list"
  new_chat :: "'v ChatHistory list"
  new_pdf :: "'v PDFEmbedding list"

definition SessionLocal :: "'v database \<Rightarrow> 'v session" where
  "SessionLocal db = \<lparr>base = db, deleted = [], new_chat = [], new_pdf = []\<rparr>"

definition session_delete :: "'v ChatHistory \<Rightarrow> 'v session \<Rightarrow> 'v session" where
  "session_delete msg s = s\<lparr>deleted := deleted s @ [ch_id msg]\<rparr>"

definition session_add_chat :: "'v ChatHistory \<Rightarrow> 'v session \<Rightarrow> 'v session" where
  "session_add_chat chat s = s\<lparr>new_chat := new_chat s @ [chat]\<rparr>"

definition session_add_pdf :: "'v PDFEmbedding \<Rightarrow> 'v session \<Rightarrow> 'v session" where
  "session_add_pdf pdf_emb s = s\<lparr>new_pdf := new_pdf s @ [pdf_emb]\<rparr>"

definition commit :: "'v session \<Rightarrow> 'v database" where
  "commit s =
    (let db = base s;
         n = next_uuid db;
         chats = map2 (\<lambda>r i. r\<lparr>ch_id := i\<rparr>) (new_chat s) [n ..< n + length (new_chat s)];
         n' = n + length (new_chat s);
         pdfs = map2 (\<lambda>r i. r\<lparr>pdf_id := i\<rparr>) (new_pdf s) [n' ..< n' + length (new_pdf s)]
     in \<lparr>chat_history = filter (\<lambda>r. ch_id r \<notin> set (deleted s)) (chat_history db) @ chats,
         pdf_embeddings = pdf_embeddings db @ pdfs,
         next_uuid = n' + length (new_pdf s)\<rparr>)"

definition rollback :: "'v session \<Rightarrow> 'v database" where
  "rollback s = base s"

subsection \<open>Chat history\<close>

text \<open>
  \<open>save_user_message\<close>: count the user's rows; at the limit, select the
  \<open>count - CHAT_HISTORY_LIMIT + 1\<close> first rows by timestamp and mark them deleted; embed the
  message; add the new row (its \<open>ch_id\<close> is filled in at commit) and commit. Any exception
  rolls the session back and is raised again. \<open>now\<close> is the value of \<open>time.time()\<close>.
\<close>

definition save_user_message ::
  "'v backend \<Rightarrow> real \<Rightarrow> 'v database \<Rightarrow> string \<Rightarrow> string \<Rightarrow> (error + unit) \<times> 'v database" where
  "save_user_message env now db user_id message =
    (let session = SessionLocal db in
     if \<not> server_up env then (Inl OperationalError, rollback session)
     else
       let count = length (filter (\<lambda>r. ch_user_id r = user_id) (chat_history db));
           session =
             (if count \<ge> CHAT_HISTORY_LIMIT then
                let oldest = take (count - CHAT_HISTORY_LIMIT + 1)
                      (sort_key ch_timestamp
                        (filter (\<lambda>r. ch_user_id r = user_id) (scan_chat env (chat_history db))))
                in fold session_delete oldest session
              else session)
       in case embed_query env message of
            Inl e \<Rightarrow> (Inl e, rollback session)
          | Inr emb \<Rightarrow>
              (Inr (), commit (session_add_chat
                 \<lparr>ch_id = 0, ch_user_id = user_id, ch_message = message,
                  ch_embedding = emb, ch_timestamp = now\<rparr> session)))"

text \<open>
  The rows a call of \<open>save_user_message\<close> marks for deletion: the value of its variable
  \<open>oldest\<close> when the user is at the limit, and no row otherwise.
\<close>

definition oldest :: "'v backend \<Rightarrow> 'v database \<Rightarrow> string \<Rightarrow> 'v ChatHistory list" where
  "oldest env db user_id =
    (let count = length (filter (\<lambda>r. ch_user_id r = user_id) (chat_history db))
     in if count \<ge> CHAT_HISTORY_LIMIT then
          take (count - CHAT_HISTORY_LIMIT + 1)
            (sort_key ch_timestamp
              (filter (\<lambda>r. ch_user_id r = user_id) (scan_chat env (chat_history db))))
        else [])"

text \<open>
  The query of \<open>retrieve_user_memory\<close>: the user's rows, ordered by cosine distance of
  the stored embedding to the query embedding, limited to \<open>k\<close>.
\<close>

definition nearest_chat :: "'v backend \<Rightarrow> 'v database \<Rightarrow> string \<Rightarrow> 'v \<Rightarrow> nat \<Rightarrow> 'v ChatHistory list" where
  "nearest_chat env db user_id query_emb k =
    take k (sort_key (\<lambda>r. cosine_distance env (ch_embedding r) query_emb)
             (filter (\<lambda>r. ch_user_id r = user_id) (scan_chat env (chat_history db))))"

definition chat_document :: "'v ChatHistory \<Rightarrow> ChatDocument" where
  "chat_document r =
    \<lparr>cd_page_content = ch_message r, cd_user_id = ch_user_id r, cd_timestamp = ch_timestamp r\<rparr>"

text \<open>
  The body of the \<open>try\<close> block of \<open>retrieve_user_memory\<close>. PostgreSQL rejects a negative
  \<open>LIMIT\<close>. Rows with an empty message are left out of the answer (\<open>if r.message\<close>).
\<close>

definition retrieve_user_memory_try ::
  "'v backend \<Rightarrow> 'v database \<Rightarrow> string \<Rightarrow> string \<Rightarrow> int \<Rightarrow> error + ChatDocument list" where
  "retrieve_user_memory_try env db user_id query k =
    (case embed_query env query of
       Inl e \<Rightarrow> Inl e
     | Inr query_emb \<Rightarrow>
         if \<not> server_up env then Inl OperationalError
         else if k < 0 then Inl DataError
         else
           let results = nearest_chat env db user_id query_emb (nat k)
           in Inr (map chat_document (filter (\<lambda>r. ch_message r \<noteq> []) results)))"

text \<open>\<open>except Exception: return []\<close>\<close>

definition retrieve_user_memory ::
  "'v backend \<Rightarrow> 'v database \<Rightarrow> string \<Rightarrow> string \<Rightarrow> int \<Rightarrow> ChatDocument list" where
  "retrieve_user_memory env db user_id query k =
    (case retrieve_user_memory_try env db user_id query k of
       Inl e \<Rightarrow> []
     | Inr docs \<Rightarrow> docs)"

text \<open>
  \<open>clear_history_by_user\<close>: one bulk \<open>DELETE\<close> and a commit, inside \<open>try ... finally\<close> with
  no \<open>except\<close>: an exception leaves the database as it was and reaches the caller.
\<close>

definition clear_history_by_user ::
  "'v backend \<Rightarrow> 'v database \<Rightarrow> string \<Rightarrow> (error + unit) \<times> 'v database" where
  "clear_history_by_user env db user_id =
    (if \<not> server_up env then (Inl OperationalError, db)
     else (Inr (), db\<lparr>chat_history := filter (\<lambda>r. ch_user_id r \<noteq> user_id) (chat_history db)\<rparr>))"

subsection \<open>PDF embeddings\<close>

definition new_PDFEmbedding :: "'v backend \<Rightarrow> Document \<Rightarrow> 'v \<Rightarrow> 'v PDFEmbedding" where
  "new_PDFEmbedding env chunk emb =
    \<lparr>pdf_id = 0,
     pdf_user_id = dict_get (md_user_id (metadata chunk)) [],
     pdf_filename = dict_get (md_filename (metadata chunk)) [],
     pdf_source = dict_get (md_source (metadata chunk)) [],
     pdf_is_public = dict_get (md_is_public (metadata chunk)) 0,
     pdf_chunk_text = page_content chunk,
     pdf_embedding = emb,
     pdf_metadata_json = py_str env (metadata chunk)\<rparr>"

text \<open>
  \<open>insert_new_chunks\<close>: embed all texts in one call, add one row per pair of
  \<open>zip(chunks, embeddings_list)\<close>, commit and return \<open>True\<close>. Any exception rolls back and
  returns \<open>False\<close>. The database is first contacted when the session is flushed at commit.
\<close>

definition insert_new_chunks ::
  "'v backend \<Rightarrow> 'v database \<Rightarrow> Document list \<Rightarrow> bool \<times> 'v database" where
  "insert_new_chunks env db chunks =
    (let session = SessionLocal db;
         texts = map page_content chunks
     in case embed_documents env texts of
          Inl e \<Rightarrow> (False, rollback session)
        | Inr embeddings_list \<Rightarrow>
            let session = fold (\<lambda>(chunk, emb). session_add_pdf (new_PDFEmbedding env chunk emb))
                               (zip chunks embeddings_list) session
            in if server_up env then (True, commit session)
               else (False, rollback session))"

text \<open>The filter of \<open>retrieve_pdf_for_user\<close>: the user's own rows and the public ones.\<close>

definition visible_to :: "string \<Rightarrow> 'v PDFEmbedding \<Rightarrow> bool" where
  "visible_to user_id r = (pdf_user_id r = user_id \<or> pdf_is_public r = 1)"

definition nearest_pdf :: "'v backend \<Rightarrow> 'v database \<Rightarrow> string \<Rightarrow> 'v \<Rightarrow> nat \<Rightarrow> 'v PDFEmbedding list" where
  "nearest_pdf env db user_id query_emb k =
    take k (sort_key (\<lambda>r. cosine_distance env (pdf_embedding r) query_emb)
             (filter (visible_to user_id) (scan_pdf env (pdf_embeddings db))))"

definition pdf_document :: "'v PDFEmbedding \<Rightarrow> PDFDocument" where
  "pdf_document r =
    \<lparr>pd_page_content = pdf_chunk_text r, pd_user_id = pdf_user_id r,
     pd_filename = pdf_filename r, pd_source = pdf_source r, pd_is_public = pdf_is_public r\<rparr>"

definition retrieve_pdf_for_user_try ::
  "'v backend \<Rightarrow> 'v database \<Rightarrow> string \<Rightarrow> string \<Rightarrow> int \<Rightarrow> error + PDFDocument list" where
  "retrieve_pdf_for_user_try env db user_id query k =
    (case embed_query env query of
       Inl e \<Rightarrow> Inl e
     | Inr query_emb \<Rightarrow>
         if \<not> server_up env then Inl OperationalError
         else if k < 0 then Inl DataError
         else Inr (map pdf_document (nearest_pdf env db user_id query_emb (nat k))))"

definition retrieve_pdf_for_user ::
  "'v backend \<Rightarrow> 'v database \<Rightarrow> string \<Rightarrow> string \<Rightarrow> int \<Rightarrow> PDFDocument list" where
  "retrieve_pdf_for_user env db user_id query k =
    (case retrieve_pdf_for_user_try env db user_id query k of
       Inl e \<Rightarrow> []
     | Inr docs \<Rightarrow> docs)"

subsection \<open>Stores and sequences of calls\<close>

text \<open>
  The primary keys of \<open>chat_history\<close> are unique, and every key in use was drawn from the
  supply. The store is empty after \<open>init_vectordb\<close> on a new database.
\<close>

definition wf_db :: "'v database \<Rightarrow> bool" where
  "wf_db db =
    (distinct (map ch_id (chat_history db)) \<and> (\<forall>r \<in> set (chat_history db). ch_id r < next_uuid db))"

definition empty_db :: "'v database" where
  "empty_db = \<lparr>chat_history = [], pdf_embeddings = [], next_uuid = 0\<rparr>"

text \<open>
  A call of \<open>save_user_message\<close>: the backend it meets, the reading of the clock, the user
  and the message. \<open>run_saves\<close> makes the calls one after the other; a call that raises
  leaves the store to the next call as it found it.
\<close>

type_synonym 'v call = "'v backend \<times> real \<times> string \<times> string"

fun run_saves :: "'v database \<Rightarrow> 'v call list \<Rightarrow> 'v database" where
  "run_saves db [] = db"
| "run_saves db ((env, now, user_id, message) # calls) =
     run_saves (snd (save_user_message env now db user_id message)) calls"

text \<open>The stored turns of a user, text and timestamp, in the order of insertion.\<close>

definition turns_of :: "'v database \<Rightarrow> string \<Rightarrow> (string \<times> real) list" where
  "turns_of db u =
    map (\<lambda>r. (ch_message r, ch_timestamp r)) (filter (\<lambda>r. ch_user_id r = u) (chat_history db))"

text \<open>
  In the words of the specification: the turns recorded for a user by a sequence of
  calls, in the order of the calls (a call records its turn unless it raises), and the
  most recent \<open>n\<close> of a list of turns.
\<close>

fun recorded :: "'v call list \<Rightarrow> string \<Rightarrow> (string \<times> real) list" where
  "recorded [] u = []"
| "recorded ((env, now, user_id, message) # calls) u =
     (if user_id = u \<and> server_up env \<and> \<not> isl (embed_query env message)
      then (message, now) # recorded calls u
      else recorded calls u)"

definition most_recent :: "nat \<Rightarrow> 'a list \<Rightarrow> 'a list" where
  "most_recent n xs = drop (length xs - n) xs"

subsection \<open>Concrete backends and stores for the examples\<close>

text \<open>
  Embeddings are integers here: a text is embedded as its length, and the distance of two
  embeddings is their absolute difference. \<open>demo_env_rev\<close> reads tables backwards,
  \<open>demo_env_down\<close> has no database connection, \<open>demo_env_noembed\<close> has no embedding
  service.
\<close>

definition demo_env :: "int backend" where
  "demo_env =
    \<lparr>embed_query = (\<lambda>s. Inr (int (length s))),
     embed_documents = (\<lambda>ts. Inr (map (\<lambda>s. int (length s)) ts)),
     cosine_distance = (\<lambda>a b. real_of_int \<bar>a - b\<bar>),
     server_up = True,
     scan_chat = (\<lambda>rows. rows),
     scan_pdf = (\<lambda>rows. rows),
     py_str = (\<lambda>m. dict_get (md_source m) [] @ '':'' @ dict_get (md_user_id m) [])\<rparr>"

definition demo_env_rev :: "int backend" where
  "demo_env_rev = demo_env\<lparr>scan_chat := rev, scan_pdf := rev\<rparr>"

definition demo_env_down :: "int backend" where
  "demo_env_down = demo_env\<lparr>server_up := False\<rparr>"

definition demo_env_noembed :: "int backend" where
  "demo_env_noembed =
     demo_env\<lparr>embed_query := (\<lambda>s. Inl EmbeddingError),
              embed_documents := (\<lambda>ts. Inl EmbeddingError)\<rparr>"

definition turn :: "nat \<Rightarrow> string \<Rightarrow> string \<Rightarrow> int \<Rightarrow> real \<Rightarrow> int ChatHistory" where
  "turn i u m e t =
    \<lparr>ch_id = i, ch_user_id = u, ch_message = m, ch_embedding = e, ch_timestamp = t\<rparr>"

definition fragment :: "nat \<Rightarrow> string \<Rightarrow> string \<Rightarrow> int \<Rightarrow> string \<Rightarrow> int \<Rightarrow> int PDFEmbedding" where
  "fragment i u src pub txt e =
    \<lparr>pdf_id = i, pdf_user_id = u, pdf_filename = src, pdf_source = src, pdf_is_public = pub,
     pdf_chunk_text = txt, pdf_embedding = e, pdf_metadata_json = src @ '':'' @ u\<rparr>"

definition chunk :: "string \<Rightarrow> string \<Rightarrow> int \<Rightarrow> string \<Rightarrow> Document" where
  "chunk u src pub txt =
    \<lparr>page_content = txt,
     metadata = \<lparr>md_user_id = Some u, md_filename = Some src, md_source = Some src,
                 md_is_public = Some pub, md_other = []\<rparr>\<rparr>"

text \<open>Three turns of \<open>u1\<close>, one of them with an empty text, and one turn of \<open>u2\<close>.\<close>

definition demo_chat :: "int database" where
  "demo_chat =
    \<lparr>chat_history =
       [turn 0 ''u1'' ''first'' 7 100, turn 1 ''u2'' ''other'' 5 101,
        turn 2 ''u1'' [] 5 102, turn 3 ''u1'' ''fourth'' 7 103],
     pdf_embeddings = [], next_uuid = 4\<rparr>"

text \<open>
  \<open>u1\<close> is at the limit of ten turns; the first two were stored with the same timestamp.
\<close>

definition demo_full :: "int database" where
  "demo_full =
    \<lparr>chat_history =
       [turn 0 ''u1'' ''m0'' 2 100, turn 1 ''u1'' ''m1'' 2 100, turn 2 ''u1'' ''m2'' 2 102,
        turn 3 ''u1'' ''m3'' 2 103, turn 4 ''u1'' ''m4'' 2 104, turn 5 ''u1'' ''m5'' 2 105,
        turn 6 ''u1'' ''m6'' 2 106, turn 7 ''u1'' ''m7'' 2 107, turn 8 ''u1'' ''m8'' 2 108,
        turn 9 ''u1'' ''m9'' 2 109, turn 10 ''u2'' ''n0'' 2 99],
     pdf_embeddings = [], next_uuid = 11\<rparr>"

text \<open>
  \<open>u1\<close> is at the limit of ten turns, four of them with an empty text, the oldest among
  them.
\<close>

definition demo_full_empty :: "int database" where
  "demo_full_empty =
    \<lparr>chat_history =
       [turn 0 ''u1'' [] 0 100, turn 1 ''u1'' ''m1'' 2 101, turn 2 ''u1'' [] 0 102,
        turn 3 ''u1'' ''m3'' 2 103, turn 4 ''u1'' [] 0 104, turn 5 ''u1'' ''m5'' 2 105,
        turn 6 ''u1'' [] 0 106, turn 7 ''u1'' ''m7'' 2 107, turn 8 ''u1'' ''m8'' 2 108,
        turn 9 ''u1'' ''m9'' 2 109],
     pdf_embeddings = [], next_uuid = 10\<rparr>"

text \<open>A private fragment of \<open>alice\<close>, a private and a public fragment of \<open>bob\<close>.\<close>

definition demo_pdfs :: "int database" where
  "demo_pdfs =
    \<lparr>chat_history = [],
     pdf_embeddings =
       [fragment 0 ''alice'' ''a.pdf'' 0 ''private of alice'' 3,
        fragment 1 ''bob'' ''b.pdf'' 0 ''private of bob'' 4,
        fragment 2 ''bob'' ''c.pdf'' 1 ''shared by bob'' 6],
     next_uuid = 3\<rparr>"

definition demo_chunks :: "Document list" where
  "demo_chunks =
    [chunk ''alice'' ''d.pdf'' 1 ''one'', chunk ''alice'' ''d.pdf'' 1 ''two'',
     chunk ''alice'' ''d.pdf'' 1 ''three'', chunk ''alice'' ''d.pdf'' 1 ''four'',
     chunk ''alice'' ''d.pdf'' 1 ''five'']"

text \<open>
  Calls of \<open>u1\<close> on \<open>demo_env\<close>. In \<open>demo_calls\<close> the clock advances from call to call; in
  \<open>demo_calls_clock_set_back\<close> the second and the last call read an earlier time than the
  call before them.
\<close>

definition say :: "real \<Rightarrow> string \<Rightarrow> int call" where
  "say t m = (demo_env, t, ''u1'', m)"

definition demo_calls :: "int call list" where
  "demo_calls =
    [say 1 ''msg1'', say 2 ''msg2'', say 3 ''msg3'', say 4 ''msg4'', say 5 ''msg5'',
     say 6 ''msg6'', say 7 ''msg7'', say 8 ''msg8'', say 9 ''msg9'', say 10 ''msg10'',
     say 11 ''msg11'', say 12 ''msg12'']"

definition demo_calls_clock_set_back :: "int call list" where
  "demo_calls_clock_set_back =
    [say 2 ''a'', say 1 ''b'', say 3 ''c'', say 4 ''d'', say 5 ''e'', say 6 ''f'',
     say 7 ''g'', say 8 ''h'', say 9 ''i'', say 10 ''j'', say 0 ''k'']"

lemmas demo_defs = demo_env_def demo_env_rev_def demo_env_down_def demo_env_noembed_def
  turn_def fragment_def chunk_def demo_chat_def demo_full_def demo_pdfs_def demo_chunks_def

section \<open>Properties\<close>

subsection \<open>Scans and sessions\<close>

lemma is_scan_set: "is_scan scan \<Longrightarrow> set (scan rows) = set rows"
  unfolding is_scan_def by (metis set_mset_mset)

lemma is_scan_id: "is_scan (\<lambda>rows. rows)"
  by (simp add: is_scan_def)

lemma is_scan_rev: "is_scan rev"
  by (simp add: is_scan_def)

lemma fold_session_delete_base: "base (fold session_delete xs s) = base s"
  by (induction xs arbitrary: s) (simp_all add: session_delete_def)

subsection \<open>Visibility of PDF fragments\<close>

lemma nearest_pdf_subset:
  assumes "is_scan (scan_pdf env)"
  shows "set (nearest_pdf env db u qe k) \<subseteq> {r \<in> set (pdf_embeddings db). visible_to u r}"
proof -
  have "set (nearest_pdf env db u qe k)
        \<subseteq> set (filter (visible_to u) (scan_pdf env (pdf_embeddings db)))"
    unfolding nearest_pdf_def using set_take_subset[of k] by (metis set_sort)
  then show ?thesis using is_scan_set[OF assms] by auto
qed

text \<open>
  C1. For every user \<open>u\<close>, query and \<open>k\<close>, each document returned by
  \<open>retrieve_pdf_for_user\<close> is built from a stored fragment that \<open>u\<close> owns or whose
  \<open>is_public\<close> flag is 1: a fragment of another user is returned only if it is public.
\<close>

theorem retrieve_pdf_for_user_visibility:
  assumes "is_scan (scan_pdf env)"
  shows "\<forall>d \<in> set (retrieve_pdf_for_user env db u q k).
           (\<exists>r \<in> set (pdf_embeddings db).
              d = pdf_document r \<and> (pdf_user_id r = u \<or> pdf_is_public r = 1))
           \<and> (pd_user_id d = u \<or> pd_is_public d = 1)"
proof
  fix d assume d: "d \<in> set (retrieve_pdf_for_user env db u q k)"
  then obtain qe where "d \<in> set (map pdf_document (nearest_pdf env db u qe (nat k)))"
    by (auto simp: retrieve_pdf_for_user_def retrieve_pdf_for_user_try_def
             split: sum.splits if_splits)
  then obtain r where r: "r \<in> set (nearest_pdf env db u qe (nat k))" "d = pdf_document r"
    by auto
  with nearest_pdf_subset[OF assms, of db u qe "nat k"]
  have "r \<in> set (pdf_embeddings db)" "visible_to u r"
    by blast+
  with r show "(\<exists>r \<in> set (pdf_embeddings db).
              d = pdf_document r \<and> (pdf_user_id r = u \<or> pdf_is_public r = 1))
           \<and> (pd_user_id d = u \<or> pd_is_public d = 1)"
    by (auto simp: visible_to_def pdf_document_def)
qed

text \<open>
  \<open>alice\<close> asks for three fragments: she gets her own and the public one of \<open>bob\<close>, nearest
  first, and not the private one of \<open>bob\<close>.
\<close>

lemma demo_alice:
  "retrieve_pdf_for_user demo_env demo_pdfs ''alice'' ''query'' 3 =
     [pdf_document (fragment 2 ''bob'' ''c.pdf'' 1 ''shared by bob'' 6),
      pdf_document (fragment 0 ''alice'' ''a.pdf'' 0 ''private of alice'' 3)]"
  by (simp add: retrieve_pdf_for_user_def retrieve_pdf_for_user_try_def nearest_pdf_def
      visible_to_def demo_defs)

theorem retrieve_pdf_for_user_visibility_witness:
  "is_scan (scan_pdf demo_env) \<and>
   map pd_page_content (retrieve_pdf_for_user demo_env demo_pdfs ''alice'' ''query'' 3) =
     [''shared by bob'', ''private of alice''] \<and>
   list_all (\<lambda>d. pd_user_id d = ''alice'' \<or> pd_is_public d = 1)
     (retrieve_pdf_for_user demo_env demo_pdfs ''alice'' ''query'' 3)"
proof -
  have h: "is_scan (scan_pdf demo_env)"
    by (simp add: demo_env_def is_scan_id)
  have "list_all (\<lambda>d. pd_user_id d = ''alice'' \<or> pd_is_public d = 1)
     (retrieve_pdf_for_user demo_env demo_pdfs ''alice'' ''query'' 3)"
    using retrieve_pdf_for_user_visibility[OF h, of demo_pdfs "''alice''" "''query''" 3]
    by (simp add: list_all_iff)
  then show ?thesis using h by (simp add: demo_alice pdf_document_def fragment_def)
qed

subsection \<open>Failure of the embedding service\<close>

text \<open>
  C3. If the batch embedding call of \<open>insert_new_chunks\<close> fails, the function returns
  \<open>False\<close> and the database after the call is the database before it: no fragment of the
  batch is inserted.
\<close>

theorem insert_new_chunks_embedding_failure:
  assumes "embed_documents env (map page_content chunks) = Inl e"
  shows "insert_new_chunks env db chunks = (False, db)"
  using assms by (simp add: insert_new_chunks_def Let_def rollback_def SessionLocal_def)

theorem insert_new_chunks_embedding_failure_witness:
  "length demo_chunks = 5 \<and>
   embed_documents demo_env_noembed (map page_content demo_chunks) = Inl EmbeddingError \<and>
   insert_new_chunks demo_env_noembed demo_pdfs demo_chunks = (False, demo_pdfs)"
proof -
  have h: "embed_documents demo_env_noembed (map page_content demo_chunks) = Inl EmbeddingError"
    by (simp add: demo_env_noembed_def demo_env_def)
  from insert_new_chunks_embedding_failure[OF h, of demo_pdfs] h
  show ?thesis by (simp add: demo_chunks_def)
qed

text \<open>
  C7. If the embedding call of \<open>save_user_message\<close> fails, the exception is raised again
  and the database after the call is the database before it: the deletions of the oldest
  turns that the session holds are rolled back, not committed.
\<close>

theorem save_user_message_embedding_failure:
  assumes "embed_query env message = Inl e"
  shows "save_user_message env now db user_id message =
           (Inl (if server_up env then e else OperationalError), db)"
  using assms by (simp add: save_user_message_def Let_def rollback_def SessionLocal_def
      fold_session_delete_base)

text \<open>
  \<open>u1\<close> is at the limit, so the session has marked a turn for deletion when the embedding
  call fails; the history is unchanged all the same.
\<close>

theorem save_user_message_embedding_failure_witness:
  "embed_query demo_env_noembed ''new'' = Inl EmbeddingError \<and>
   CHAT_HISTORY_LIMIT \<le> length (filter (\<lambda>r. ch_user_id r = ''u1'') (chat_history demo_full)) \<and>
   save_user_message demo_env_noembed 200 demo_full ''u1'' ''new'' = (Inl EmbeddingError, demo_full)"
proof -
  have h: "embed_query demo_env_noembed ''new'' = Inl EmbeddingError"
    by (simp add: demo_defs)
  have c: "CHAT_HISTORY_LIMIT \<le> length (filter (\<lambda>r. ch_user_id r = ''u1'') (chat_history demo_full))"
    by (simp add: demo_defs CHAT_HISTORY_LIMIT_def)
  have "server_up demo_env_noembed" by (simp add: demo_defs)
  with save_user_message_embedding_failure[OF h, of 200 demo_full "''u1''"] h c
  show ?thesis by simp
qed

subsection \<open>Clearing the history of a user\<close>

text \<open>
  C10. \<open>clear_history_by_user\<close> leaves all PDF fragments and the turns of every other user
  as they were; when the database answers, it removes exactly the turns of the given
  user, and when it does not, nothing changes.
\<close>

theorem clear_history_by_user_frame:
  "pdf_embeddings (snd (clear_history_by_user env db u)) = pdf_embeddings db
   \<and> (\<forall>v. v \<noteq> u \<longrightarrow>
         filter (\<lambda>r. ch_user_id r = v) (chat_history (snd (clear_history_by_user env db u)))
         = filter (\<lambda>r. ch_user_id r = v) (chat_history db))
   \<and> (server_up env \<longrightarrow>
         clear_history_by_user env db u
         = (Inr (), db\<lparr>chat_history := filter (\<lambda>r. ch_user_id r \<noteq> u) (chat_history db)\<rparr>))
   \<and> (\<not> server_up env \<longrightarrow> clear_history_by_user env db u = (Inl OperationalError, db))"
proof -
  have "filter (\<lambda>r. ch_user_id r = v) (filter (\<lambda>r. ch_user_id r \<noteq> u) xs)
        = filter (\<lambda>r. ch_user_id r = v) xs" if "v \<noteq> u" for v and xs :: "'a ChatHistory list"
    using that by (induction xs) auto
  then show ?thesis by (simp add: clear_history_by_user_def)
qed

theorem clear_history_by_user_frame_witness:
  "server_up demo_env \<and>
   map ch_id (chat_history (snd (clear_history_by_user demo_env demo_full ''u1''))) = [10] \<and>
   filter (\<lambda>r. ch_user_id r = ''u2'') (chat_history (snd (clear_history_by_user demo_env demo_full ''u1'')))
     = filter (\<lambda>r. ch_user_id r = ''u2'') (chat_history demo_full) \<and>
   pdf_embeddings (snd (clear_history_by_user demo_env demo_pdfs ''bob'')) = pdf_embeddings demo_pdfs"
proof -
  have h: "server_up demo_env" by (simp add: demo_env_def)
  note t = clear_history_by_user_frame[of demo_env demo_full "''u1''"]
  from t h have 1: "clear_history_by_user demo_env demo_full ''u1''
         = (Inr (), demo_full\<lparr>chat_history := filter (\<lambda>r. ch_user_id r \<noteq> ''u1'') (chat_history demo_full)\<rparr>)"
    by blast
  from t have a: "\<forall>v. v \<noteq> ''u1'' \<longrightarrow>
         filter (\<lambda>r. ch_user_id r = v) (chat_history (snd (clear_history_by_user demo_env demo_full ''u1'')))
         = filter (\<lambda>r. ch_user_id r = v) (chat_history demo_full)"
    by blast
  have 2: "filter (\<lambda>r. ch_user_id r = ''u2'') (chat_history (snd (clear_history_by_user demo_env demo_full ''u1'')))
     = filter (\<lambda>r. ch_user_id r = ''u2'') (chat_history demo_full)"
    using a[rule_format, of "''u2''"] by simp
  from clear_history_by_user_frame[of demo_env demo_pdfs "''bob''"]
  have 3: "pdf_embeddings (snd (clear_history_by_user demo_env demo_pdfs ''bob'')) = pdf_embeddings demo_pdfs"
    by blast
  have 4: "map ch_id (chat_history (snd (clear_history_by_user demo_env demo_full ''u1''))) = [10]"
    unfolding 1 by (simp add: demo_full_def turn_def)
  from h 4 2 3 show ?thesis by blast
qed

subsection \<open>Failures during a read\<close>

lemma retrieve_user_memory_down:
  "\<not> server_up env \<Longrightarrow> retrieve_user_memory env db u q k = []"
  by (simp add: retrieve_user_memory_def retrieve_user_memory_try_def split: sum.splits)

lemma retrieve_pdf_for_user_down:
  "\<not> server_up env \<Longrightarrow> retrieve_pdf_for_user env db u q k = []"
  by (simp add: retrieve_pdf_for_user_def retrieve_pdf_for_user_try_def split: sum.splits)

lemma sort_key_Nil_iff: "sort_key f xs = [] \<longleftrightarrow> xs = []"
  by (metis length_0_conv length_sort)

lemma nearest_pdf_empty_iff:
  assumes "is_scan (scan_pdf env)" "0 < k"
  shows "nearest_pdf env db u qe k = [] \<longleftrightarrow> \<not> (\<exists>r \<in> set (pdf_embeddings db). visible_to u r)"
proof -
  have "nearest_pdf env db u qe k = []
        \<longleftrightarrow> filter (visible_to u) (scan_pdf env (pdf_embeddings db)) = []"
    using assms(2) by (simp add: nearest_pdf_def take_eq_Nil sort_key_Nil_iff del: filter_empty_conv filter_False)
  also have "\<dots> \<longleftrightarrow> \<not> (\<exists>r \<in> set (scan_pdf env (pdf_embeddings db)). visible_to u r)"
    by (simp add: filter_empty_conv)
  finally show ?thesis by (simp add: is_scan_set[OF assms(1)])
qed

text \<open>
  C4, as the code has it. \<open>retrieve_user_memory\<close> and \<open>retrieve_pdf_for_user\<close> catch every
  exception of their \<open>try\<close> block and return the empty list: when the database does not
  answer, and whenever the block fails, the caller gets \<open>[]\<close> and no error. When the
  block of \<open>retrieve_pdf_for_user\<close> does not fail and \<open>k\<close> is positive, the answer is empty
  only if no stored fragment is visible to the user.
\<close>

theorem retrieve_failure_returns_empty:
  "(\<not> server_up env \<longrightarrow>
      retrieve_user_memory env db u q k = [] \<and> retrieve_pdf_for_user env db u q k = [])
   \<and> (retrieve_user_memory_try env db u q k = Inl e \<longrightarrow> retrieve_user_memory env db u q k = [])
   \<and> (retrieve_pdf_for_user_try env db u q k = Inl e \<longrightarrow> retrieve_pdf_for_user env db u q k = [])
   \<and> (is_scan (scan_pdf env) \<and> 0 < k \<and> retrieve_pdf_for_user_try env db u q k = Inr docs \<longrightarrow>
        retrieve_pdf_for_user env db u q k = docs \<and>
        (docs = [] \<longleftrightarrow> \<not> (\<exists>r \<in> set (pdf_embeddings db). visible_to u r)))"
proof -
  have 1: "\<not> server_up env \<longrightarrow>
      retrieve_user_memory env db u q k = [] \<and> retrieve_pdf_for_user env db u q k = []"
    by (simp add: retrieve_user_memory_down retrieve_pdf_for_user_down)
  have 2: "retrieve_user_memory_try env db u q k = Inl e \<longrightarrow> retrieve_user_memory env db u q k = []"
    by (simp add: retrieve_user_memory_def)
  have 3: "retrieve_pdf_for_user_try env db u q k = Inl e \<longrightarrow> retrieve_pdf_for_user env db u q k = []"
    by (simp add: retrieve_pdf_for_user_def)
  have 4: "is_scan (scan_pdf env) \<and> 0 < k \<and> retrieve_pdf_for_user_try env db u q k = Inr docs \<longrightarrow>
        retrieve_pdf_for_user env db u q k = docs \<and>
        (docs = [] \<longleftrightarrow> \<not> (\<exists>r \<in> set (pdf_embeddings db). visible_to u r))"
  proof (intro impI, elim conjE)
    assume s: "is_scan (scan_pdf env)" and k: "0 < k"
      and t: "retrieve_pdf_for_user_try env db u q k = Inr docs"
    from t obtain qe where "docs = map pdf_document (nearest_pdf env db u qe (nat k))"
      by (auto simp: retrieve_pdf_for_user_try_def split: sum.splits if_splits)
    moreover from k have "0 < nat k" by simp
    ultimately have "docs = [] \<longleftrightarrow> \<not> (\<exists>r \<in> set (pdf_embeddings db). visible_to u r)"
      using nearest_pdf_empty_iff[OF s, of "nat k" db u qe] by simp
    with t show "retrieve_pdf_for_user env db u q k = docs \<and>
        (docs = [] \<longleftrightarrow> \<not> (\<exists>r \<in> set (pdf_embeddings db). visible_to u r))"
      by (simp add: retrieve_pdf_for_user_def)
  qed
  from 1 2 3 4 show ?thesis by blast
qed

text \<open>
  The claim as the specification states it (a failing read surfaces an error, never an
  empty list) fails: without a database connection both functions return \<open>[]\<close>, although a
  turn of \<open>u1\<close> and a fragment visible to \<open>alice\<close> are stored.
\<close>

lemma demo_recall_down:
  "retrieve_user_memory_try demo_env_down demo_chat ''u1'' ''1234567'' 2 = Inl OperationalError"
  by (simp add: retrieve_user_memory_try_def demo_defs)

lemma demo_retrieve_down:
  "retrieve_pdf_for_user_try demo_env_down demo_pdfs ''alice'' ''query'' 3 = Inl OperationalError"
  by (simp add: retrieve_pdf_for_user_try_def demo_defs)

theorem retrieve_failure_counterexample:
  "\<not> server_up demo_env_down \<and>
   turn 0 ''u1'' ''first'' 7 100 \<in> set (chat_history demo_chat) \<and>
   ch_user_id (turn 0 ''u1'' ''first'' 7 100) = ''u1'' \<and>
   retrieve_user_memory_try demo_env_down demo_chat ''u1'' ''1234567'' 2 = Inl OperationalError \<and>
   retrieve_user_memory demo_env_down demo_chat ''u1'' ''1234567'' 2 = [] \<and>
   fragment 0 ''alice'' ''a.pdf'' 0 ''private of alice'' 3 \<in> set (pdf_embeddings demo_pdfs) \<and>
   visible_to ''alice'' (fragment 0 ''alice'' ''a.pdf'' 0 ''private of alice'' 3) \<and>
   retrieve_pdf_for_user_try demo_env_down demo_pdfs ''alice'' ''query'' 3 = Inl OperationalError \<and>
   retrieve_pdf_for_user demo_env_down demo_pdfs ''alice'' ''query'' 3 = []"
  by (simp add: demo_recall_down demo_retrieve_down retrieve_user_memory_def
      retrieve_pdf_for_user_def)
     (simp add: demo_defs visible_to_def)

theorem retrieve_failure_returns_empty_witness:
  "\<not> server_up demo_env_down \<and>
   retrieve_user_memory demo_env_down demo_chat ''u1'' ''1234567'' 2 = [] \<and>
   retrieve_pdf_for_user demo_env_down demo_pdfs ''alice'' ''query'' 3 = [] \<and>
   is_scan (scan_pdf demo_env) \<and>
   retrieve_pdf_for_user_try demo_env demo_pdfs ''carol'' ''query'' 3
     = Inr [pdf_document (fragment 2 ''bob'' ''c.pdf'' 1 ''shared by bob'' 6)] \<and>
   retrieve_pdf_for_user demo_env demo_pdfs ''carol'' ''query'' 3
     = [pdf_document (fragment 2 ''bob'' ''c.pdf'' 1 ''shared by bob'' 6)] \<and>
   (\<exists>r \<in> set (pdf_embeddings demo_pdfs). visible_to ''carol'' r)"
proof -
  have d: "\<not> server_up demo_env_down" by (simp add: demo_defs)
  have s: "is_scan (scan_pdf demo_env)" by (simp add: demo_env_def is_scan_id)
  have t: "retrieve_pdf_for_user_try demo_env demo_pdfs ''carol'' ''query'' 3
     = Inr [pdf_document (fragment 2 ''bob'' ''c.pdf'' 1 ''shared by bob'' 6)]"
    by (simp add: retrieve_pdf_for_user_try_def nearest_pdf_def visible_to_def demo_defs)
  from retrieve_failure_returns_empty[where env=demo_env_down and db=demo_chat and u="''u1''"
      and q="''1234567''" and k=2] d
  have 1: "retrieve_user_memory demo_env_down demo_chat ''u1'' ''1234567'' 2 = []" by blast
  from retrieve_failure_returns_empty[where env=demo_env_down and db=demo_pdfs and u="''alice''"
      and q="''query''" and k=3] d
  have 2: "retrieve_pdf_for_user demo_env_down demo_pdfs ''alice'' ''query'' 3 = []" by blast
  from retrieve_failure_returns_empty[where env=demo_env and db=demo_pdfs and u="''carol''"
      and q="''query''" and k=3
      and docs="[pdf_document (fragment 2 ''bob'' ''c.pdf'' 1 ''shared by bob'' 6)]"] s t
  have 3: "retrieve_pdf_for_user demo_env demo_pdfs ''carol'' ''query'' 3
     = [pdf_document (fragment 2 ''bob'' ''c.pdf'' 1 ''shared by bob'' 6)] \<and>
     (\<exists>r \<in> set (pdf_embeddings demo_pdfs). visible_to ''carol'' r)"
    by simp
  from d 1 2 s t 3 show ?thesis by blast
qed

subsection \<open>Order of the nearest rows\<close>

text \<open>
  The first \<open>k\<close> rows of a sort are sorted, are as many as asked for or as there are,
  and no row left out has a smaller key than a row taken.
\<close>

lemma is_scan_filter: "is_scan scan \<Longrightarrow> mset (filter P (scan rows)) = mset (filter P rows)"
  by (simp add: is_scan_def)

lemma top_sorted: "sorted (map f (take k (sort_key f xs)))"
proof -
  have "sorted (take k (map f (sort_key f xs)))"
    by (rule sorted_wrt_take) simp
  then show ?thesis by (simp add: take_map)
qed



lemma top_least:
  assumes "a \<in> set (take k (sort_key f xs))" and "b \<in> set (drop k (sort_key f xs))"
  shows "f a \<le> f b"
proof -
  have "sorted (map f (sort_key f xs))" by simp
  then have "sorted (map f (take k (sort_key f xs) @ drop k (sort_key f xs)))"
    by (simp only: append_take_drop_id)
  then have "sorted (map f (take k (sort_key f xs)) @ map f (drop k (sort_key f xs)))"
    by (simp only: map_append)
  then have "\<forall>x \<in> set (map f (take k (sort_key f xs))).
               \<forall>y \<in> set (map f (drop k (sort_key f xs))). x \<le> y"
    unfolding sorted_append by (elim conjE)
  with assms show ?thesis by (simp only: set_map) blast
qed





lemma demo_embed:
  "embed_query demo_env ''1234567'' = Inr 7" "embed_query demo_env_rev ''1234567'' = Inr 7"
  "embed_query demo_env ''12345'' = Inr 5"
  "server_up demo_env" "server_up demo_env_rev"
  "is_scan (scan_chat demo_env)" "is_scan (scan_pdf demo_env)"
  "is_scan (scan_chat demo_env_rev)" "is_scan (scan_pdf demo_env_rev)"
  by (simp_all add: demo_env_def demo_env_rev_def is_scan_id is_scan_rev)




subsection \<open>Attributes of inserted fragments\<close>

lemma fold_session_add_pdf:
  "fold (\<lambda>(chunk, emb). session_add_pdf (g chunk emb)) zs s
     = s\<lparr>new_pdf := new_pdf s @ map (\<lambda>(chunk, emb). g chunk emb) zs\<rparr>"
  by (induction zs arbitrary: s) (auto simp: session_add_pdf_def)

lemma insert_new_chunks_success:
  assumes "embed_documents env (map page_content chunks) = Inr embs" and "server_up env"
  shows "insert_new_chunks env db chunks =
    (True, \<lparr>chat_history = chat_history db,
            pdf_embeddings = pdf_embeddings db @
              map2 (\<lambda>r i. r\<lparr>pdf_id := i\<rparr>)
                (map (\<lambda>(chunk, emb). new_PDFEmbedding env chunk emb) (zip chunks embs))
                [next_uuid db ..< next_uuid db + length (zip chunks embs)],
            next_uuid = next_uuid db + length (zip chunks embs)\<rparr>)"
  using assms
  by (simp add: insert_new_chunks_def SessionLocal_def fold_session_add_pdf commit_def Let_def)

lemma insert_new_chunks_True:
  assumes "insert_new_chunks env db chunks = (True, db')"
  obtains embs where "embed_documents env (map page_content chunks) = Inr embs" "server_up env"
  using assms
  by (cases "embed_documents env (map page_content chunks)")
     (auto simp: insert_new_chunks_def Let_def split: if_splits)

lemma added_nth:
  assumes "i < min (length chunks) (length embs)"
  shows "map2 (\<lambda>r i. r\<lparr>pdf_id := i\<rparr>)
           (map (\<lambda>(chunk, emb). new_PDFEmbedding env chunk emb) (zip chunks embs))
           [n ..< n + length (zip chunks embs)] ! i
         = (new_PDFEmbedding env (chunks ! i) (embs ! i))\<lparr>pdf_id := n + i\<rparr>"
  using assms by simp

text \<open>
  C8. When \<open>insert_new_chunks\<close> succeeds, the rows it appends to \<open>pdf_embeddings\<close> are one
  per pair of chunk and embedding, in order, and the row of a chunk has the user, the
  filename, the source and the visibility flag that the chunk's metadata supplies (the
  empty string or 0 for an absent key), the chunk's text, and as \<open>metadata_json\<close> the text
  \<open>str\<close> gives for the chunk's metadata, which is not changed before. So if the
  chunks of a batch are all supplied with the same user, source and visibility, every
  inserted fragment carries them.
\<close>

theorem insert_new_chunks_attributes:
  assumes "insert_new_chunks env db chunks = (True, db')"
  shows "\<exists>embs added.
      embed_documents env (map page_content chunks) = Inr embs
    \<and> pdf_embeddings db' = pdf_embeddings db @ added
    \<and> length added = min (length chunks) (length embs)
    \<and> (\<forall>i < length added.
          pdf_user_id (added ! i) = dict_get (md_user_id (metadata (chunks ! i))) []
        \<and> pdf_filename (added ! i) = dict_get (md_filename (metadata (chunks ! i))) []
        \<and> pdf_source (added ! i) = dict_get (md_source (metadata (chunks ! i))) []
        \<and> pdf_is_public (added ! i) = dict_get (md_is_public (metadata (chunks ! i))) 0
        \<and> pdf_chunk_text (added ! i) = page_content (chunks ! i)
        \<and> pdf_embedding (added ! i) = embs ! i
        \<and> pdf_metadata_json (added ! i) = py_str env (metadata (chunks ! i)))
    \<and> (\<forall>user source vis.
          (\<forall>c \<in> set chunks. md_user_id (metadata c) = Some user
                           \<and> md_source (metadata c) = Some source
                           \<and> md_is_public (metadata c) = Some vis)
          \<longrightarrow> (\<forall>r \<in> set added. pdf_user_id r = user \<and> pdf_source r = source
                                  \<and> pdf_is_public r = vis))"
proof -
  from assms obtain embs
    where e: "embed_documents env (map page_content chunks) = Inr embs" and up: "server_up env"
    by (rule insert_new_chunks_True)
  define added where "added =
     map2 (\<lambda>r i. r\<lparr>pdf_id := i\<rparr>)
       (map (\<lambda>(chunk, emb). new_PDFEmbedding env chunk emb) (zip chunks embs))
       [next_uuid db ..< next_uuid db + length (zip chunks embs)]"
  from insert_new_chunks_success[OF e up, of db] assms
  have 1: "pdf_embeddings db' = pdf_embeddings db @ added"
    by (auto simp: added_def)
  have 2: "length added = min (length chunks) (length embs)"
    by (simp add: added_def)
  have n: "added ! i = (new_PDFEmbedding env (chunks ! i) (embs ! i))\<lparr>pdf_id := next_uuid db + i\<rparr>"
    if "i < length added" for i
    using that unfolding added_def 2[unfolded added_def] by (simp only: added_nth length_map)
  have 3: "\<forall>i < length added.
          pdf_user_id (added ! i) = dict_get (md_user_id (metadata (chunks ! i))) []
        \<and> pdf_filename (added ! i) = dict_get (md_filename (metadata (chunks ! i))) []
        \<and> pdf_source (added ! i) = dict_get (md_source (metadata (chunks ! i))) []
        \<and> pdf_is_public (added ! i) = dict_get (md_is_public (metadata (chunks ! i))) 0
        \<and> pdf_chunk_text (added ! i) = page_content (chunks ! i)
        \<and> pdf_embedding (added ! i) = embs ! i
        \<and> pdf_metadata_json (added ! i) = py_str env (metadata (chunks ! i))"
    by (simp add: n new_PDFEmbedding_def)
  have 4: "\<forall>user source vis.
          (\<forall>c \<in> set chunks. md_user_id (metadata c) = Some user
                           \<and> md_source (metadata c) = Some source
                           \<and> md_is_public (metadata c) = Some vis)
          \<longrightarrow> (\<forall>r \<in> set added. pdf_user_id r = user \<and> pdf_source r = source
                                  \<and> pdf_is_public r = vis)"
  proof (intro allI impI ballI)
    fix user source vis r
    assume u: "\<forall>c \<in> set chunks. md_user_id (metadata c) = Some user
                           \<and> md_source (metadata c) = Some source
                           \<and> md_is_public (metadata c) = Some vis"
      and r: "r \<in> set added"
    from r obtain i where i: "i < length added" "r = added ! i"
      by (auto simp: in_set_conv_nth)
    with 2 have "chunks ! i \<in> set chunks" by simp
    with u have "md_user_id (metadata (chunks ! i)) = Some user"
      "md_source (metadata (chunks ! i)) = Some source"
      "md_is_public (metadata (chunks ! i)) = Some vis" by blast+
    with 3 i show "pdf_user_id r = user \<and> pdf_source r = source \<and> pdf_is_public r = vis"
      by (simp add: dict_get_def)
  qed
  from e 1 2 3 4 show ?thesis by blast
qed

text \<open>Five chunks supplied as public fragments of \<open>d.pdf\<close> by \<open>alice\<close>.\<close>

lemma demo_insert:
  "insert_new_chunks demo_env demo_pdfs demo_chunks =
    (True, demo_pdfs\<lparr>pdf_embeddings := pdf_embeddings demo_pdfs @
        [fragment 3 ''alice'' ''d.pdf'' 1 ''one'' 3, fragment 4 ''alice'' ''d.pdf'' 1 ''two'' 3,
         fragment 5 ''alice'' ''d.pdf'' 1 ''three'' 5, fragment 6 ''alice'' ''d.pdf'' 1 ''four'' 4,
         fragment 7 ''alice'' ''d.pdf'' 1 ''five'' 4], next_uuid := 8\<rparr>)"
  by (simp add: insert_new_chunks_def SessionLocal_def fold_session_add_pdf commit_def Let_def
      new_PDFEmbedding_def dict_get_def session_add_pdf_def demo_defs upt_rec)

theorem insert_new_chunks_attributes_witness:
  "fst (insert_new_chunks demo_env demo_pdfs demo_chunks) = True \<and>
   map pdf_chunk_text (drop 3 (pdf_embeddings (snd (insert_new_chunks demo_env demo_pdfs demo_chunks))))
     = [''one'', ''two'', ''three'', ''four'', ''five''] \<and>
   list_all (\<lambda>r. pdf_user_id r = ''alice'' \<and> pdf_source r = ''d.pdf'' \<and> pdf_is_public r = 1)
     (drop 3 (pdf_embeddings (snd (insert_new_chunks demo_env demo_pdfs demo_chunks))))"
proof -
  define db' where "db' = snd (insert_new_chunks demo_env demo_pdfs demo_chunks)"
  have t: "insert_new_chunks demo_env demo_pdfs demo_chunks = (True, db')"
    by (simp add: db'_def demo_insert)
  have c: "\<forall>c \<in> set demo_chunks. md_user_id (metadata c) = Some ''alice''
                           \<and> md_source (metadata c) = Some ''d.pdf''
                           \<and> md_is_public (metadata c) = Some 1"
    by (simp add: demo_chunks_def chunk_def)
  from insert_new_chunks_attributes[OF t] obtain embs added where
    a: "pdf_embeddings db' = pdf_embeddings demo_pdfs @ added"
    and u: "\<forall>user source vis.
          (\<forall>c \<in> set demo_chunks. md_user_id (metadata c) = Some user
                           \<and> md_source (metadata c) = Some source
                           \<and> md_is_public (metadata c) = Some vis)
          \<longrightarrow> (\<forall>r \<in> set added. pdf_user_id r = user \<and> pdf_source r = source
                                  \<and> pdf_is_public r = vis)"
    by blast
  from a have d: "drop 3 (pdf_embeddings db') = added"
    by (simp add: demo_pdfs_def)
  from u c have "\<forall>r \<in> set added. pdf_user_id r = ''alice'' \<and> pdf_source r = ''d.pdf''
                                  \<and> pdf_is_public r = 1"
    by blast
  then have 3: "list_all (\<lambda>r. pdf_user_id r = ''alice'' \<and> pdf_source r = ''d.pdf'' \<and> pdf_is_public r = 1)
     (drop 3 (pdf_embeddings db'))"
    unfolding d by (simp add: list_all_iff)
  have 2: "map pdf_chunk_text (drop 3 (pdf_embeddings db'))
     = [''one'', ''two'', ''three'', ''four'', ''five'']"
    unfolding db'_def demo_insert by (simp add: demo_pdfs_def fragment_def)
  have 1: "fst (insert_new_chunks demo_env demo_pdfs demo_chunks) = True"
    by (simp add: demo_insert)
  from 1 2 3 show ?thesis unfolding db'_def by (intro conjI)
qed

subsection \<open>Eviction of the oldest turns\<close>

text \<open>
  What a call of \<open>save_user_message\<close> leaves in the store: on success the rows not marked
  for deletion and the new row; on failure what was there.
\<close>

lemma fold_session_delete:
  "fold session_delete xs s = s\<lparr>deleted := deleted s @ map ch_id xs\<rparr>"
  by (induction xs arbitrary: s) (simp_all add: session_delete_def)

lemma save_user_message_success:
  assumes "server_up env" and "embed_query env m = Inr emb"
  shows "save_user_message env now db u m =
    (Inr (),
     \<lparr>chat_history =
        filter (\<lambda>r. ch_id r \<notin> ch_id ` set (oldest env db u)) (chat_history db) @
        [\<lparr>ch_id = next_uuid db, ch_user_id = u, ch_message = m,
          ch_embedding = emb, ch_timestamp = now\<rparr>],
      pdf_embeddings = pdf_embeddings db,
      next_uuid = Suc (next_uuid db)\<rparr>)"
  using assms
  by (simp add: save_user_message_def oldest_def SessionLocal_def fold_session_delete
      session_add_chat_def commit_def Let_def)

lemma save_user_message_failure:
  assumes "\<not> server_up env \<or> isl (embed_query env m)"
  shows "snd (save_user_message env now db u m) = db"
  using assms
  by (cases "embed_query env m")
     (auto simp: save_user_message_def SessionLocal_def rollback_def fold_session_delete_base
        Let_def)

lemma oldest_cases:
  obtains (below) "length (filter (\<lambda>r. ch_user_id r = u) (chat_history db)) < CHAT_HISTORY_LIMIT"
      "oldest env db u = []"
  | (limit) "CHAT_HISTORY_LIMIT \<le> length (filter (\<lambda>r. ch_user_id r = u) (chat_history db))"
      "oldest env db u =
         take (length (filter (\<lambda>r. ch_user_id r = u) (chat_history db)) - CHAT_HISTORY_LIMIT + 1)
           (sort_key ch_timestamp
             (filter (\<lambda>r. ch_user_id r = u) (scan_chat env (chat_history db))))"
proof (cases "CHAT_HISTORY_LIMIT \<le> length (filter (\<lambda>r. ch_user_id r = u) (chat_history db))")
  case True
  then show ?thesis by (intro limit) (simp_all only: oldest_def Let_def if_True)
next
  case False
  then have "oldest env db u = []" by (simp only: oldest_def Let_def if_False)
  moreover from False
  have "length (filter (\<lambda>r. ch_user_id r = u) (chat_history db)) < CHAT_HISTORY_LIMIT"
    by (simp only: not_le)
  ultimately show ?thesis by (intro below)
qed

lemma oldest_subset:
  assumes "is_scan (scan_chat env)"
  shows "set (oldest env db u) \<subseteq> {r \<in> set (chat_history db). ch_user_id r = u}"
proof (cases rule: oldest_cases[of u db env])
  case below
  then show ?thesis by simp
next
  case limit
  let ?S = "sort_key ch_timestamp
             (filter (\<lambda>r. ch_user_id r = u) (scan_chat env (chat_history db)))"
  have "set ?S = {r \<in> set (scan_chat env (chat_history db)). ch_user_id r = u}"
    by simp
  then have "set ?S = {r \<in> set (chat_history db). ch_user_id r = u}"
    by (simp only: is_scan_set[OF assms])
  moreover have "set (oldest env db u) \<subseteq> set ?S"
    unfolding limit(2) by (rule set_take_subset)
  ultimately show ?thesis by simp
qed

lemma wf_db_inj: "wf_db db \<Longrightarrow> inj_on ch_id (set (chat_history db))"
  by (simp add: wf_db_def distinct_map)

lemma wf_db_distinct: "wf_db db \<Longrightarrow> distinct (chat_history db)"
  by (simp add: wf_db_def distinct_map)

lemma deleted_by_id:
  assumes "wf_db db" and "set xs \<subseteq> set (chat_history db)"
  shows "filter (\<lambda>r. ch_id r \<notin> ch_id ` set xs) (chat_history db)
       = filter (\<lambda>r. r \<notin> set xs) (chat_history db)"
proof (rule filter_cong[OF refl])
  fix r assume r: "r \<in> set (chat_history db)"
  have "ch_id r \<in> ch_id ` set xs \<longleftrightarrow> r \<in> set xs"
    using inj_on_image_mem_iff[OF wf_db_inj[OF assms(1)] r assms(2)] .
  then show "(ch_id r \<notin> ch_id ` set xs) = (r \<notin> set xs)" by simp
qed

lemma length_filter_not_in:
  assumes "distinct ys" and "distinct xs" and "set xs \<subseteq> set ys"
  shows "length (filter (\<lambda>r. r \<notin> set xs) ys) = length ys - length xs"
proof -
  have "distinct (filter (\<lambda>r. r \<notin> set xs) ys)" using assms(1) by simp
  then have "length (filter (\<lambda>r. r \<notin> set xs) ys) = card (set (filter (\<lambda>r. r \<notin> set xs) ys))"
    by (simp only: distinct_card)
  also have "set (filter (\<lambda>r. r \<notin> set xs) ys) = set ys - set xs" by auto
  also have "card (set ys - set xs) = card (set ys) - card (set xs)"
    using assms(3) by (simp add: card_Diff_subset)
  finally show ?thesis using assms(1,2) by (simp add: distinct_card)
qed

lemma oldest_at_limit:
  assumes wf: "wf_db db" and scan: "is_scan (scan_chat env)"
    and lim: "CHAT_HISTORY_LIMIT \<le> length (filter (\<lambda>r. ch_user_id r = u) (chat_history db))"
  shows "distinct (oldest env db u)"
    and "length (oldest env db u)
           = length (filter (\<lambda>r. ch_user_id r = u) (chat_history db)) - CHAT_HISTORY_LIMIT + 1"
    and "sorted (map ch_timestamp (oldest env db u))"
    and "\<forall>r \<in> set (oldest env db u). \<forall>r' \<in> set (chat_history db).
           ch_user_id r' = u \<and> r' \<notin> set (oldest env db u) \<longrightarrow> ch_timestamp r \<le> ch_timestamp r'"
proof -
  let ?P = "\<lambda>r. ch_user_id r = u"
  let ?n = "length (filter ?P (chat_history db)) - CHAT_HISTORY_LIMIT + 1"
  let ?S = "sort_key ch_timestamp (filter ?P (scan_chat env (chat_history db)))"
  from lim have o: "oldest env db u = take ?n ?S"
    by (cases rule: oldest_cases[of u db env]) simp_all
  have m: "mset ?S = mset (filter ?P (chat_history db))"
    using is_scan_filter[OF scan, of ?P "chat_history db"] by (simp only: mset_sort)
  have "distinct (filter ?P (chat_history db))"
    using wf_db_distinct[OF wf] by simp
  with m have d: "distinct ?S" by (metis mset_eq_imp_distinct_iff)
  then show "distinct (oldest env db u)" unfolding o by simp
  have l: "length ?S = length (filter ?P (chat_history db))"
    using m by (rule mset_eq_length)
  from lim have "?n \<le> length (filter ?P (chat_history db))"
    by (simp add: CHAT_HISTORY_LIMIT_def)
  then show "length (oldest env db u) = ?n" unfolding o using l by simp
  show "sorted (map ch_timestamp (oldest env db u))" unfolding o by (rule top_sorted)
  show "\<forall>r \<in> set (oldest env db u). \<forall>r' \<in> set (chat_history db).
           ch_user_id r' = u \<and> r' \<notin> set (oldest env db u) \<longrightarrow> ch_timestamp r \<le> ch_timestamp r'"
  proof (intro ballI impI, elim conjE)
    fix r r'
    assume r: "r \<in> set (oldest env db u)" and r': "r' \<in> set (chat_history db)"
      and u: "ch_user_id r' = u" and n: "r' \<notin> set (oldest env db u)"
    from r' u have "r' \<in> set (filter ?P (chat_history db))" by simp
    then have "r' \<in> set ?S" using m by (metis mset_eq_setD)
    then have "r' \<in> set (take ?n ?S) \<union> set (drop ?n ?S)"
      by (metis append_take_drop_id set_append)
    with n[unfolded o] have "r' \<in> set (drop ?n ?S)" by blast
    with r show "ch_timestamp r \<le> ch_timestamp r'" unfolding o by (rule top_least)
  qed
qed

lemma save_user_message_success_wf:
  assumes "wf_db db" and "is_scan (scan_chat env)"
    and "server_up env" and "embed_query env m = Inr emb"
  shows "save_user_message env now db u m =
    (Inr (),
     \<lparr>chat_history =
        filter (\<lambda>r. r \<notin> set (oldest env db u)) (chat_history db) @
        [\<lparr>ch_id = next_uuid db, ch_user_id = u, ch_message = m,
          ch_embedding = emb, ch_timestamp = now\<rparr>],
      pdf_embeddings = pdf_embeddings db,
      next_uuid = Suc (next_uuid db)\<rparr>)"
proof -
  from oldest_subset[OF assms(2), of db u]
  have "set (oldest env db u) \<subseteq> set (chat_history db)" by blast
  from deleted_by_id[OF assms(1) this] save_user_message_success[OF assms(3,4), where now=now and db=db and u=u]
  show ?thesis by simp
qed

text \<open>
  C6, as the code has it. When \<open>save_user_message\<close> succeeds for a user at the limit, it
  removes exactly the rows \<open>oldest\<close> and appends the new turn. The removed rows are turns
  of that user, \<open>count - CHAT_HISTORY_LIMIT + 1\<close> of them, and none of the user's turns that
  stay has a smaller timestamp than a removed one; afterwards the user has
  \<open>CHAT_HISTORY_LIMIT\<close> turns. The text of a turn plays no part. Which of several turns with
  the same timestamp is removed is the store's choice.
\<close>

theorem save_user_message_evicts_least_timestamps:
  assumes "wf_db db" and "is_scan (scan_chat env)"
    and "server_up env" and "embed_query env m = Inr emb"
    and "CHAT_HISTORY_LIMIT \<le> length (filter (\<lambda>r. ch_user_id r = u) (chat_history db))"
  shows "chat_history (snd (save_user_message env now db u m))
           = filter (\<lambda>r. r \<notin> set (oldest env db u)) (chat_history db) @
             [\<lparr>ch_id = next_uuid db, ch_user_id = u, ch_message = m,
               ch_embedding = emb, ch_timestamp = now\<rparr>]
    \<and> set (oldest env db u) \<subseteq> {r \<in> set (chat_history db). ch_user_id r = u}
    \<and> distinct (oldest env db u)
    \<and> length (oldest env db u)
         = length (filter (\<lambda>r. ch_user_id r = u) (chat_history db)) - CHAT_HISTORY_LIMIT + 1
    \<and> (\<forall>r \<in> set (oldest env db u). \<forall>r' \<in> set (chat_history db).
          ch_user_id r' = u \<and> r' \<notin> set (oldest env db u) \<longrightarrow> ch_timestamp r \<le> ch_timestamp r')
    \<and> length (filter (\<lambda>r. ch_user_id r = u) (chat_history (snd (save_user_message env now db u m))))
         = CHAT_HISTORY_LIMIT"
proof -
  let ?P = "\<lambda>r. ch_user_id r = u"
  note s = save_user_message_success_wf[OF assms(1-4), where now=now and u=u]
  note sub = oldest_subset[OF assms(2), of db u]
  note o = oldest_at_limit[OF assms(1,2,5)]
  have 1: "chat_history (snd (save_user_message env now db u m))
           = filter (\<lambda>r. r \<notin> set (oldest env db u)) (chat_history db) @
             [\<lparr>ch_id = next_uuid db, ch_user_id = u, ch_message = m,
               ch_embedding = emb, ch_timestamp = now\<rparr>]"
    unfolding s by simp
  have sub': "set (oldest env db u) \<subseteq> set (filter ?P (chat_history db))"
    using sub by auto
  have "filter ?P (filter (\<lambda>r. r \<notin> set (oldest env db u)) (chat_history db))
        = filter (\<lambda>r. r \<notin> set (oldest env db u)) (filter ?P (chat_history db))"
    by (simp add: conj_commute)
  then have "length (filter ?P (filter (\<lambda>r. r \<notin> set (oldest env db u)) (chat_history db)))
        = length (filter ?P (chat_history db)) - length (oldest env db u)"
    using length_filter_not_in[OF _ o(1) sub'] wf_db_distinct[OF assms(1)] by simp
  with o(2) assms(5)
  have 6: "length (filter ?P (chat_history (snd (save_user_message env now db u m))))
         = CHAT_HISTORY_LIMIT"
    unfolding 1 by (simp add: CHAT_HISTORY_LIMIT_def)
  show ?thesis by (intro conjI 1 sub o(1) o(2) o(4) 6)
qed

text \<open>
  The claim as the specification states it (turns with identical timestamps are evicted
  in the order of their insertion, so the choice is fixed) fails: \<open>m0\<close> was inserted before
  \<open>m1\<close> with the same timestamp; a store that reads the table backwards evicts \<open>m1\<close> and
  keeps \<open>m0\<close>, one that reads it forwards evicts \<open>m0\<close>.
\<close>

lemma demo_oldest:
  "oldest demo_env demo_full ''u1'' = [turn 0 ''u1'' ''m0'' 2 100]"
  "oldest demo_env_rev demo_full ''u1'' = [turn 1 ''u1'' ''m1'' 2 100]"
  by (simp_all add: oldest_def demo_defs CHAT_HISTORY_LIMIT_def)

lemma demo_full_ready:
  "wf_db demo_full"
  "embed_query demo_env ''new'' = Inr 3" "embed_query demo_env_rev ''new'' = Inr 3"
  "CHAT_HISTORY_LIMIT \<le> length (filter (\<lambda>r. ch_user_id r = ''u1'') (chat_history demo_full))"
  by (simp_all add: wf_db_def demo_defs CHAT_HISTORY_LIMIT_def)

lemma demo_evict:
  "map ch_message (chat_history (snd (save_user_message demo_env_rev 200 demo_full ''u1'' ''new'')))
     = [''m0'', ''m2'', ''m3'', ''m4'', ''m5'', ''m6'', ''m7'', ''m8'', ''m9'', ''n0'', ''new'']"
  "map ch_message (chat_history (snd (save_user_message demo_env 200 demo_full ''u1'' ''new'')))
     = [''m1'', ''m2'', ''m3'', ''m4'', ''m5'', ''m6'', ''m7'', ''m8'', ''m9'', ''n0'', ''new'']"
  by (simp_all add: save_user_message_success[OF demo_embed(5) demo_full_ready(3)]
      save_user_message_success[OF demo_embed(4) demo_full_ready(2)] demo_oldest)
     (simp_all add: demo_full_def turn_def)

theorem eviction_tie_counterexample:
  "wf_db demo_full \<and> is_scan (scan_chat demo_env_rev) \<and> is_scan (scan_chat demo_env) \<and>
   take 2 (chat_history demo_full) = [turn 0 ''u1'' ''m0'' 2 100, turn 1 ''u1'' ''m1'' 2 100] \<and>
   ch_timestamp (turn 0 ''u1'' ''m0'' 2 100) = ch_timestamp (turn 1 ''u1'' ''m1'' 2 100) \<and>
   map ch_message (chat_history (snd (save_user_message demo_env_rev 200 demo_full ''u1'' ''new'')))
     = [''m0'', ''m2'', ''m3'', ''m4'', ''m5'', ''m6'', ''m7'', ''m8'', ''m9'', ''n0'', ''new''] \<and>
   map ch_message (chat_history (snd (save_user_message demo_env 200 demo_full ''u1'' ''new'')))
     = [''m1'', ''m2'', ''m3'', ''m4'', ''m5'', ''m6'', ''m7'', ''m8'', ''m9'', ''n0'', ''new'']"
  by (simp add: demo_evict demo_full_ready demo_embed) (simp add: demo_full_def turn_def)

theorem save_user_message_evicts_least_timestamps_witness:
  "wf_db demo_full \<and> is_scan (scan_chat demo_env) \<and> server_up demo_env \<and>
   embed_query demo_env ''new'' = Inr 3 \<and>
   CHAT_HISTORY_LIMIT \<le> length (filter (\<lambda>r. ch_user_id r = ''u1'') (chat_history demo_full)) \<and>
   oldest demo_env demo_full ''u1'' = [turn 0 ''u1'' ''m0'' 2 100] \<and>
   map ch_id (chat_history (snd (save_user_message demo_env 200 demo_full ''u1'' ''new'')))
     = [1, 2, 3, 4, 5, 6, 7, 8, 9, 10, 11] \<and>
   length (filter (\<lambda>r. ch_user_id r = ''u1'')
            (chat_history (snd (save_user_message demo_env 200 demo_full ''u1'' ''new''))))
     = CHAT_HISTORY_LIMIT"
proof -
  note t = save_user_message_evicts_least_timestamps[OF demo_full_ready(1) demo_embed(6)
      demo_embed(4) demo_full_ready(2) demo_full_ready(4), where now=200]
  from t have "chat_history (snd (save_user_message demo_env 200 demo_full ''u1'' ''new''))
           = filter (\<lambda>r. r \<notin> set (oldest demo_env demo_full ''u1'')) (chat_history demo_full) @
             [\<lparr>ch_id = next_uuid demo_full, ch_user_id = ''u1'', ch_message = ''new'',
               ch_embedding = 3, ch_timestamp = 200\<rparr>]"
    by (rule conjunct1)
  then have 1: "map ch_id (chat_history (snd (save_user_message demo_env 200 demo_full ''u1'' ''new'')))
     = [1, 2, 3, 4, 5, 6, 7, 8, 9, 10, 11]"
    by (simp add: demo_oldest) (simp add: demo_full_def turn_def)
  from t have 2: "length (filter (\<lambda>r. ch_user_id r = ''u1'')
            (chat_history (snd (save_user_message demo_env 200 demo_full ''u1'' ''new''))))
     = CHAT_HISTORY_LIMIT"
    by (elim conjE)
  show ?thesis
    by (intro conjI demo_full_ready(1) demo_embed(6) demo_embed(4) demo_full_ready(2)
        demo_full_ready(4) demo_oldest(1) 1 2)
qed

subsection \<open>The bound on the history of a user\<close>

text \<open>
  A call never leaves a user with more than \<open>CHAT_HISTORY_LIMIT\<close> turns who had no more
  before it, whatever the scan order and whatever the timestamps.
\<close>

lemma length_filter_mset:
  "mset xs = mset ys \<Longrightarrow> length (filter Q xs) = length (filter Q ys)"
  by (metis mset_filter size_mset)

lemma count_after_eviction:
  assumes scan: "is_scan (scan_chat env)"
    and lim: "CHAT_HISTORY_LIMIT \<le> length (filter (\<lambda>r. ch_user_id r = u) (chat_history db))"
  shows "length (filter (\<lambda>r. ch_id r \<notin> ch_id ` set (oldest env db u))
                  (filter (\<lambda>r. ch_user_id r = u) (chat_history db))) < CHAT_HISTORY_LIMIT"
proof -
  let ?P = "\<lambda>r. ch_user_id r = u"
  let ?Q = "\<lambda>r. ch_id r \<notin> ch_id ` set (oldest env db u)"
  let ?n = "length (filter ?P (chat_history db)) - CHAT_HISTORY_LIMIT + 1"
  let ?S = "sort_key ch_timestamp (filter ?P (scan_chat env (chat_history db)))"
  from lim have o: "oldest env db u = take ?n ?S"
    by (cases rule: oldest_cases[of u db env]) simp_all
  have m: "mset (filter ?P (chat_history db)) = mset (take ?n ?S @ drop ?n ?S)"
    using is_scan_filter[OF scan, of ?P "chat_history db"] by simp
  have "filter ?Q (take ?n ?S) = []"
    unfolding o[symmetric] by (simp add: filter_empty_conv)
  then have "length (filter ?Q (take ?n ?S @ drop ?n ?S)) = length (filter ?Q (drop ?n ?S))"
    by (simp only: filter_append append_Nil)
  also have "\<dots> \<le> length (drop ?n ?S)" by (rule length_filter_le)
  also have "length (drop ?n ?S) = length (filter ?P (chat_history db)) - ?n"
    using mset_eq_length[OF is_scan_filter[OF scan, of ?P "chat_history db"]] by simp
  also have "\<dots> < CHAT_HISTORY_LIMIT"
    using lim by (simp add: CHAT_HISTORY_LIMIT_def)
  finally show ?thesis unfolding length_filter_mset[OF m] .
qed

lemma count_after_save:
  assumes scan: "is_scan (scan_chat env)"
    and le: "length (filter (\<lambda>r. ch_user_id r = v) (chat_history db)) \<le> CHAT_HISTORY_LIMIT"
  shows "length (filter (\<lambda>r. ch_user_id r = v)
                  (chat_history (snd (save_user_message env now db u m)))) \<le> CHAT_HISTORY_LIMIT"
proof (cases "\<not> server_up env \<or> isl (embed_query env m)")
  case True
  then show ?thesis using le by (simp only: save_user_message_failure)
next
  case False
  then obtain emb where up: "server_up env" and e: "embed_query env m = Inr emb"
    by (cases "embed_query env m") auto
  let ?Q = "\<lambda>r. ch_id r \<notin> ch_id ` set (oldest env db u)"
  let ?Pv = "\<lambda>r. ch_user_id r = v"
  have h: "chat_history (snd (save_user_message env now db u m))
        = filter ?Q (chat_history db) @
          [\<lparr>ch_id = next_uuid db, ch_user_id = u, ch_message = m,
            ch_embedding = emb, ch_timestamp = now\<rparr>]"
    by (simp add: save_user_message_success[OF up e])
  have c: "filter ?Pv (filter ?Q (chat_history db)) = filter ?Q (filter ?Pv (chat_history db))"
    by (simp add: conj_commute)
  have f: "filter ?Pv (chat_history (snd (save_user_message env now db u m)))
        = filter ?Q (filter ?Pv (chat_history db)) @
          (if u = v then [\<lparr>ch_id = next_uuid db, ch_user_id = u, ch_message = m,
            ch_embedding = emb, ch_timestamp = now\<rparr>] else [])"
    unfolding h filter_append c by simp
  show ?thesis
  proof (cases "v = u")
    case False
    have "length (filter ?Q (filter ?Pv (chat_history db))) \<le> length (filter ?Pv (chat_history db))"
      by (rule length_filter_le)
    with le have "length (filter ?Q (filter ?Pv (chat_history db))) \<le> CHAT_HISTORY_LIMIT"
      by (rule order_trans[rotated])
    with False show ?thesis unfolding f by simp
  next
    case True
    show ?thesis
    proof (cases rule: oldest_cases[of u db env])
      case below
      have "length (filter ?Q (filter ?Pv (chat_history db))) \<le> length (filter ?Pv (chat_history db))"
        by (rule length_filter_le)
      with below(1) True show ?thesis unfolding f by simp
    next
      case limit
      from count_after_eviction[OF scan limit(1)] True show ?thesis
        unfolding f by simp
    qed
  qed
qed

lemma run_saves_count:
  assumes "\<forall>c \<in> set calls. is_scan (scan_chat (fst c))"
    and "length (filter (\<lambda>r. ch_user_id r = v) (chat_history db)) \<le> CHAT_HISTORY_LIMIT"
  shows "length (filter (\<lambda>r. ch_user_id r = v) (chat_history (run_saves db calls)))
           \<le> CHAT_HISTORY_LIMIT"
  using assms
proof (induction db calls rule: run_saves.induct)
  case (1 db)
  then show ?case by simp
next
  case (2 db env now user_id message calls)
  from "2.prems"(1) have s: "is_scan (scan_chat env)"
    and r: "\<forall>c \<in> set calls. is_scan (scan_chat (fst c))" by simp_all
  from "2.IH"[OF r count_after_save[OF s "2.prems"(2)]] show ?case by simp
qed

text \<open>
  When the stored timestamps increase strictly in the order of insertion, sorting the
  user's rows by timestamp gives them in the order of insertion for every scan, and the
  rows marked for deletion are the first ones inserted.
\<close>

lemma sort_key_unique:
  fixes f :: "'a \<Rightarrow> real"
  assumes "mset xs = mset ys" and "sorted_wrt (<) (map f ys)"
  shows "sort_key f xs = ys"
proof -
  from assms(2) have s: "sorted (map f ys)" and d: "distinct (map f ys)"
    by (simp_all only: strict_sorted_iff)
  have m0: "mset (sort_key f xs) = mset ys"
    using assms(1) by (simp only: mset_sort)
  then have "image_mset f (mset (sort_key f xs)) = image_mset f (mset ys)"
    by (rule arg_cong)
  then have m: "mset (map f (sort_key f xs)) = mset (map f ys)"
    by (simp only: mset_map)
  have d': "distinct (map f (sort_key f xs))"
    using mset_eq_imp_distinct_iff[OF m] d by (rule iffD2)
  have e: "set (map f (sort_key f xs)) = set (map f ys)"
    using m by (rule mset_eq_setD)
  have s': "sorted (map f (sort_key f xs))" by (rule sorted_sort_key)
  from sorted_distinct_set_unique[OF s' d' s d e]
  have q: "map f (sort_key f xs) = map f ys" .
  have st: "set (sort_key f xs) = set ys"
    using m0 by (rule mset_eq_setD)
  have "inj_on f (set ys)" using d by (simp only: distinct_map)
  then have "inj_on f (set (sort_key f xs) \<union> set ys)"
    by (simp only: st Un_absorb)
  from inj_on_map_eq_map[OF this] q show ?thesis by (rule iffD1)
qed

lemma filter_not_in_take:
  assumes "distinct ys"
  shows "filter (\<lambda>r. r \<notin> set (take n ys)) ys = drop n ys"
proof -
  have "distinct (take n ys @ drop n ys)" using assms by (simp only: append_take_drop_id)
  then have dis: "set (take n ys) \<inter> set (drop n ys) = {}" by (simp only: distinct_append)
  have 1: "filter (\<lambda>r. r \<notin> set (take n ys)) (take n ys) = []"
    by (simp add: filter_empty_conv)
  have 2: "filter (\<lambda>r. r \<notin> set (take n ys)) (drop n ys) = drop n ys"
    using dis by (intro filter_True) blast
  have "filter (\<lambda>r. r \<notin> set (take n ys)) (take n ys @ drop n ys) = drop n ys"
    unfolding filter_append 1 2 by simp
  then show ?thesis by (simp only: append_take_drop_id)
qed

lemma sorted_filter_timestamps:
  assumes "sorted_wrt (<) (map ch_timestamp xs)"
  shows "sorted_wrt (<) (map ch_timestamp (filter P xs))"
  using assms unfolding sorted_wrt_map by (rule sorted_wrt_filter)

lemma oldest_sorted:
  assumes scan: "is_scan (scan_chat env)"
    and srt: "sorted_wrt (<) (map ch_timestamp (chat_history db))"
  shows "oldest env db u =
           take (length (filter (\<lambda>r. ch_user_id r = u) (chat_history db)) + 1 - CHAT_HISTORY_LIMIT)
                (filter (\<lambda>r. ch_user_id r = u) (chat_history db))"
proof (cases rule: oldest_cases[of u db env])
  case below
  then show ?thesis by simp
next
  case limit
  have "sort_key ch_timestamp (filter (\<lambda>r. ch_user_id r = u) (scan_chat env (chat_history db)))
        = filter (\<lambda>r. ch_user_id r = u) (chat_history db)"
    using is_scan_filter[OF scan] sorted_filter_timestamps[OF srt] by (rule sort_key_unique)
  with limit show ?thesis by (simp add: Suc_diff_le)
qed

lemma turns_after_save:
  assumes wf: "wf_db db" and scan: "is_scan (scan_chat env)"
    and srt: "sorted_wrt (<) (map ch_timestamp (chat_history db))"
    and up: "server_up env" and e: "embed_query env m = Inr emb"
  shows "filter (\<lambda>r. ch_user_id r = v) (chat_history (snd (save_user_message env now db u m)))
       = (if v = u
          then drop (length (filter (\<lambda>r. ch_user_id r = u) (chat_history db)) + 1 - CHAT_HISTORY_LIMIT)
                 (filter (\<lambda>r. ch_user_id r = u) (chat_history db)) @
               [\<lparr>ch_id = next_uuid db, ch_user_id = u, ch_message = m,
                 ch_embedding = emb, ch_timestamp = now\<rparr>]
          else filter (\<lambda>r. ch_user_id r = v) (chat_history db))"
proof -
  let ?Q = "\<lambda>r. r \<notin> set (oldest env db u)"
  let ?Pv = "\<lambda>r. ch_user_id r = v"
  let ?new = "\<lparr>ch_id = next_uuid db, ch_user_id = u, ch_message = m,
                 ch_embedding = emb, ch_timestamp = now\<rparr>"
  have h: "chat_history (snd (save_user_message env now db u m))
        = filter ?Q (chat_history db) @ [?new]"
    by (simp add: save_user_message_success_wf[OF wf scan up e])
  have c: "filter ?Pv (filter ?Q (chat_history db)) = filter ?Q (filter ?Pv (chat_history db))"
    by (simp add: conj_commute)
  have f: "filter ?Pv (chat_history (snd (save_user_message env now db u m)))
        = filter ?Q (filter ?Pv (chat_history db)) @ (if u = v then [?new] else [])"
    unfolding h filter_append c by simp
  show ?thesis
  proof (cases "v = u")
    case True
    have "distinct (filter (\<lambda>r. ch_user_id r = u) (chat_history db))"
      using wf_db_distinct[OF wf] by simp
    from filter_not_in_take[OF this]
    have "filter ?Q (filter (\<lambda>r. ch_user_id r = u) (chat_history db))
        = drop (length (filter (\<lambda>r. ch_user_id r = u) (chat_history db)) + 1 - CHAT_HISTORY_LIMIT)
                 (filter (\<lambda>r. ch_user_id r = u) (chat_history db))"
      unfolding oldest_sorted[OF scan srt] .
    with True show ?thesis unfolding f by simp
  next
    case False
    have "filter ?Q (filter ?Pv (chat_history db)) = filter ?Pv (chat_history db)"
    proof (rule filter_True)
      show "\<forall>r \<in> set (filter ?Pv (chat_history db)). r \<notin> set (oldest env db u)"
        using oldest_subset[OF scan, of db u] False by auto
    qed
    with False show ?thesis unfolding f by simp
  qed
qed

lemma wf_db_after_save:
  assumes wf: "wf_db db" and scan: "is_scan (scan_chat env)"
  shows "wf_db (snd (save_user_message env now db u m))"
proof (cases "\<not> server_up env \<or> isl (embed_query env m)")
  case True
  then show ?thesis using wf by (simp only: save_user_message_failure)
next
  case False
  then obtain emb where up: "server_up env" and e: "embed_query env m = Inr emb"
    by (cases "embed_query env m") auto
  have "distinct (map ch_id (filter (\<lambda>r. r \<notin> set (oldest env db u)) (chat_history db)))"
    using wf by (simp add: wf_db_def distinct_map_filter)
  moreover have "\<forall>r \<in> set (chat_history db). ch_id r < next_uuid db"
    using wf by (simp add: wf_db_def)
  ultimately show ?thesis
    unfolding save_user_message_success_wf[OF wf scan up e]
    by (auto simp: wf_db_def less_Suc_eq)
qed

lemma sorted_after_save:
  assumes wf: "wf_db db" and scan: "is_scan (scan_chat env)"
    and srt: "sorted_wrt (<) (map ch_timestamp (chat_history db) @ now # ts)"
  shows "sorted_wrt (<) (map ch_timestamp (chat_history (snd (save_user_message env now db u m))) @ ts)"
proof -
  note abc = srt[unfolded sorted_wrt_append]
  from abc have a: "sorted_wrt (<) (map ch_timestamp (chat_history db))" by (rule conjunct1)
  from abc have b: "sorted_wrt (<) (now # ts)" by (rule conjunct1[OF conjunct2])
  from abc have c: "\<forall>x \<in> set (map ch_timestamp (chat_history db)). \<forall>y \<in> set (now # ts). x < y"
    by (rule conjunct2[OF conjunct2])
  from b have b': "sorted_wrt (<) ts" by simp
  from c have c0: "\<forall>x \<in> set (map ch_timestamp (chat_history db)). \<forall>y \<in> set ts. x < y"
    by simp
  show ?thesis
  proof (cases "\<not> server_up env \<or> isl (embed_query env m)")
    case True
    have "sorted_wrt (<) (map ch_timestamp (chat_history db) @ ts)"
      unfolding sorted_wrt_append using a b' c0 by (intro conjI)
    with True show ?thesis by (simp only: save_user_message_failure)
  next
    case False
    then obtain emb where up: "server_up env" and e: "embed_query env m = Inr emb"
      by (cases "embed_query env m") auto
    let ?Q = "\<lambda>r. r \<notin> set (oldest env db u)"
    have a': "sorted_wrt (<) (map ch_timestamp (filter ?Q (chat_history db)))"
      using a by (rule sorted_filter_timestamps)
    have sub: "set (map ch_timestamp (filter ?Q (chat_history db)))
                 \<subseteq> set (map ch_timestamp (chat_history db))"
      by (simp add: image_mono)
    from sub c have c': "\<forall>x \<in> set (map ch_timestamp (filter ?Q (chat_history db))).
                           \<forall>y \<in> set (now # ts). x < y"
      by (meson subsetD)
    have "sorted_wrt (<) (map ch_timestamp (filter ?Q (chat_history db)) @ now # ts)"
      unfolding sorted_wrt_append using a' b c' by (intro conjI)
    then show ?thesis
      unfolding save_user_message_success_wf[OF wf scan up e] by simp
  qed
qed

lemma most_recent_append:
  "most_recent n (most_recent n xs @ ys) = most_recent n (xs @ ys)"
  by (cases "length xs \<le> n") (simp_all add: most_recent_def add.commute)

lemma most_recent_snoc:
  "0 < n \<Longrightarrow> drop (length xs + 1 - n) xs @ [x] = most_recent n (xs @ [x])"
  by (simp add: most_recent_def)

lemma most_recent_short: "length xs \<le> n \<Longrightarrow> most_recent n xs = xs"
  by (simp add: most_recent_def)

lemma turns_of_after_save:
  assumes wf: "wf_db db" and scan: "is_scan (scan_chat env)"
    and srt: "sorted_wrt (<) (map ch_timestamp (chat_history db))"
  shows "turns_of (snd (save_user_message env now db user_id message)) u =
     (if user_id = u \<and> server_up env \<and> \<not> isl (embed_query env message)
      then most_recent CHAT_HISTORY_LIMIT (turns_of db u @ [(message, now)])
      else turns_of db u)"
proof (cases "\<not> server_up env \<or> isl (embed_query env message)")
  case True
  then show ?thesis by (auto simp only: save_user_message_failure split: if_splits)
next
  case False
  then obtain emb where up: "server_up env" and e: "embed_query env message = Inr emb"
    by (cases "embed_query env message") auto
  note t = turns_after_save[OF wf scan srt up e, of u now user_id]
  show ?thesis
  proof (cases "user_id = u")
    case True
    have l: "length (turns_of db u) = length (filter (\<lambda>r. ch_user_id r = u) (chat_history db))"
      by (simp add: turns_of_def)
    from t True
    have t': "filter (\<lambda>r. ch_user_id r = u) (chat_history (snd (save_user_message env now db user_id message)))
        = drop (length (filter (\<lambda>r. ch_user_id r = u) (chat_history db)) + 1 - CHAT_HISTORY_LIMIT)
                 (filter (\<lambda>r. ch_user_id r = u) (chat_history db)) @
               [\<lparr>ch_id = next_uuid db, ch_user_id = u, ch_message = message,
                 ch_embedding = emb, ch_timestamp = now\<rparr>]"
      by simp
    have "turns_of (snd (save_user_message env now db user_id message)) u
        = drop (length (turns_of db u) + 1 - CHAT_HISTORY_LIMIT) (turns_of db u) @ [(message, now)]"
      unfolding l unfolding turns_of_def t' by (simp add: drop_map)
    also have "\<dots> = most_recent CHAT_HISTORY_LIMIT (turns_of db u @ [(message, now)])"
      by (rule most_recent_snoc) (simp add: CHAT_HISTORY_LIMIT_def)
    finally show ?thesis using True up e by simp
  next
    case False
    with t
    have "filter (\<lambda>r. ch_user_id r = u) (chat_history (snd (save_user_message env now db user_id message)))
        = filter (\<lambda>r. ch_user_id r = u) (chat_history db)"
      by simp
    then have "turns_of (snd (save_user_message env now db user_id message)) u = turns_of db u"
      by (simp only: turns_of_def)
    with False show ?thesis by simp
  qed
qed

lemma run_saves_turns:
  assumes "wf_db db"
    and "sorted_wrt (<) (map ch_timestamp (chat_history db) @ map (\<lambda>c. fst (snd c)) calls)"
    and "\<forall>c \<in> set calls. is_scan (scan_chat (fst c))"
    and "length (filter (\<lambda>r. ch_user_id r = u) (chat_history db)) \<le> CHAT_HISTORY_LIMIT"
  shows "turns_of (run_saves db calls) u
           = most_recent CHAT_HISTORY_LIMIT (turns_of db u @ recorded calls u)"
  using assms
proof (induction db calls rule: run_saves.induct)
  case (1 db)
  then have "length (turns_of db u) \<le> CHAT_HISTORY_LIMIT" by (simp add: turns_of_def)
  then show ?case by (simp add: most_recent_short)
next
  case (2 db env now user_id message calls)
  let ?db1 = "snd (save_user_message env now db user_id message)"
  from "2.prems"(3) have scan: "is_scan (scan_chat env)"
    and rest: "\<forall>c \<in> set calls. is_scan (scan_chat (fst c))" by simp_all
  from "2.prems"(2)
  have srt: "sorted_wrt (<) (map ch_timestamp (chat_history db) @ now # map (\<lambda>c. fst (snd c)) calls)"
    by simp
  then have srt0: "sorted_wrt (<) (map ch_timestamp (chat_history db))"
    unfolding sorted_wrt_append by (rule conjunct1)
  note ih = "2.IH"[OF wf_db_after_save[OF "2.prems"(1) scan]
      sorted_after_save[OF "2.prems"(1) scan srt] rest
      count_after_save[OF scan "2.prems"(4)]]
  note step = turns_of_after_save[OF "2.prems"(1) scan srt0, of now user_id message u]
  show ?case
  proof (cases "user_id = u \<and> server_up env \<and> \<not> isl (embed_query env message)")
    case True
    have r: "recorded ((env, now, user_id, message) # calls) u = (message, now) # recorded calls u"
      unfolding recorded.simps if_P[OF True] ..
    from step have "turns_of ?db1 u
        = most_recent CHAT_HISTORY_LIMIT (turns_of db u @ [(message, now)])"
      unfolding if_P[OF True] .
    then have "turns_of (run_saves ?db1 calls) u
        = most_recent CHAT_HISTORY_LIMIT ((turns_of db u @ [(message, now)]) @ recorded calls u)"
      unfolding ih by (simp only: most_recent_append)
    then show ?thesis unfolding r by simp
  next
    case False
    have r: "recorded ((env, now, user_id, message) # calls) u = recorded calls u"
      unfolding recorded.simps if_not_P[OF False] ..
    from step have "turns_of ?db1 u = turns_of db u"
      unfolding if_not_P[OF False] .
    then show ?thesis unfolding r using ih by simp
  qed
qed

text \<open>
  C2, as the code has it. After any sequence of calls of \<open>save_user_message\<close> on the empty
  store, a user has at most \<open>CHAT_HISTORY_LIMIT\<close> = 10 stored turns. If the clock readings of
  the calls increase strictly from call to call, the stored turns of the user are exactly
  the most recent 10 of the turns recorded for the user, in the order of the calls.
\<close>

theorem history_bound:
  assumes "\<forall>c \<in> set calls. is_scan (scan_chat (fst c))"
  shows "length (filter (\<lambda>r. ch_user_id r = u) (chat_history (run_saves empty_db calls)))
           \<le> CHAT_HISTORY_LIMIT
    \<and> (sorted_wrt (<) (map (\<lambda>c. fst (snd c)) calls) \<longrightarrow>
         turns_of (run_saves empty_db calls) u
           = most_recent CHAT_HISTORY_LIMIT (recorded calls u))"
proof -
  have e: "length (filter (\<lambda>r. ch_user_id r = u) (chat_history (empty_db :: 'a database)))
             \<le> CHAT_HISTORY_LIMIT"
    by (simp add: empty_db_def)
  have w: "wf_db (empty_db :: 'a database)" by (simp add: wf_db_def empty_db_def)
  have 1: "length (filter (\<lambda>r. ch_user_id r = u) (chat_history (run_saves empty_db calls)))
           \<le> CHAT_HISTORY_LIMIT"
    using assms e by (rule run_saves_count)
  have 2: "turns_of (run_saves empty_db calls) u
           = most_recent CHAT_HISTORY_LIMIT (recorded calls u)"
    if "sorted_wrt (<) (map (\<lambda>c. fst (snd c)) calls)"
  proof -
    from that have "sorted_wrt (<) (map ch_timestamp (chat_history (empty_db :: 'a database))
                      @ map (\<lambda>c. fst (snd c)) calls)"
      by (simp add: empty_db_def)
    from run_saves_turns[OF w this assms e] show ?thesis
      by (simp add: turns_of_def empty_db_def)
  qed
  from 1 2 show ?thesis by blast
qed

text \<open>
  \<open>u1\<close> records \<open>msg1\<close> to \<open>msg12\<close> while the clock advances: \<open>msg3\<close> to \<open>msg12\<close> are
  kept, in that order.
\<close>

lemma demo_calls_ready:
  "\<forall>c \<in> set demo_calls. is_scan (scan_chat (fst c))"
  "sorted_wrt (<) (map (\<lambda>c. fst (snd c)) demo_calls)"
  by (simp_all add: demo_calls_def say_def demo_embed)

lemma demo_recorded:
  "most_recent CHAT_HISTORY_LIMIT (recorded demo_calls ''u1'') =
     [(''msg3'', 3), (''msg4'', 4), (''msg5'', 5), (''msg6'', 6), (''msg7'', 7),
      (''msg8'', 8), (''msg9'', 9), (''msg10'', 10), (''msg11'', 11), (''msg12'', 12)]"
  by (simp add: demo_calls_def say_def demo_env_def most_recent_def CHAT_HISTORY_LIMIT_def)

theorem history_bound_witness:
  "sorted_wrt (<) (map (\<lambda>c. fst (snd c)) demo_calls) \<and>
   length (filter (\<lambda>r. ch_user_id r = ''u1'') (chat_history (run_saves empty_db demo_calls)))
     \<le> CHAT_HISTORY_LIMIT \<and>
   turns_of (run_saves empty_db demo_calls) ''u1'' =
     [(''msg3'', 3), (''msg4'', 4), (''msg5'', 5), (''msg6'', 6), (''msg7'', 7),
      (''msg8'', 8), (''msg9'', 9), (''msg10'', 10), (''msg11'', 11), (''msg12'', 12)]"
proof -
  note t = history_bound[OF demo_calls_ready(1), of "''u1''"]
  from t have 1: "length (filter (\<lambda>r. ch_user_id r = ''u1'') (chat_history (run_saves empty_db demo_calls)))
     \<le> CHAT_HISTORY_LIMIT"
    by (rule conjunct1)
  from t demo_calls_ready(2)
  have "turns_of (run_saves empty_db demo_calls) ''u1''
          = most_recent CHAT_HISTORY_LIMIT (recorded demo_calls ''u1'')"
    by blast
  then have 2: "turns_of (run_saves empty_db demo_calls) ''u1'' =
     [(''msg3'', 3), (''msg4'', 4), (''msg5'', 5), (''msg6'', 6), (''msg7'', 7),
      (''msg8'', 8), (''msg9'', 9), (''msg10'', 10), (''msg11'', 11), (''msg12'', 12)]"
    by (simp only: demo_recorded)
  show ?thesis by (intro conjI demo_calls_ready(2) 1 2)
qed

text \<open>
  The claim as the specification states it (after any sequence of calls the turns kept
  are the most recent ten by creation order, which it reads off the timestamp) fails when
  the clock is set back between calls, as \<open>time.time()\<close> allows. Here the second and the
  last call read an earlier time than the call before them: the turns kept are neither
  the last ten recorded nor the ten with the largest timestamps.
\<close>

lemma demo_save:
  "save_user_message demo_env now db u m =
    (Inr (),
     \<lparr>chat_history =
        filter (\<lambda>r. ch_id r \<notin> ch_id ` set (oldest demo_env db u)) (chat_history db) @
        [turn (next_uuid db) u m (int (length m)) now],
      pdf_embeddings = pdf_embeddings db,
      next_uuid = Suc (next_uuid db)\<rparr>)"
proof -
  have "embed_query demo_env m = Inr (int (length m))" by (simp add: demo_env_def)
  from save_user_message_success[OF demo_embed(4) this] show ?thesis
    by (simp add: turn_def)
qed

lemma demo_scan: "scan_chat demo_env = (\<lambda>rows. rows)"
  by (simp add: demo_env_def)

lemma demo_run_clock_set_back:
  "turns_of (run_saves empty_db demo_calls_clock_set_back) ''u1'' =
     [(''a'', 2), (''c'', 3), (''d'', 4), (''e'', 5), (''f'', 6), (''g'', 7),
      (''h'', 8), (''i'', 9), (''j'', 10), (''k'', 0)]"
  by (simp add: demo_calls_clock_set_back_def say_def demo_save oldest_def demo_scan
      CHAT_HISTORY_LIMIT_def empty_db_def turn_def turns_of_def)

lemma demo_recorded_clock_set_back:
  "recorded demo_calls_clock_set_back ''u1'' =
     [(''a'', 2), (''b'', 1), (''c'', 3), (''d'', 4), (''e'', 5), (''f'', 6), (''g'', 7),
      (''h'', 8), (''i'', 9), (''j'', 10), (''k'', 0)]"
  by (simp add: demo_calls_clock_set_back_def say_def demo_env_def)

theorem history_clock_set_back_counterexample:
  "turns_of (run_saves empty_db demo_calls_clock_set_back) ''u1'' =
     [(''a'', 2), (''c'', 3), (''d'', 4), (''e'', 5), (''f'', 6), (''g'', 7),
      (''h'', 8), (''i'', 9), (''j'', 10), (''k'', 0)] \<and>
   most_recent CHAT_HISTORY_LIMIT (recorded demo_calls_clock_set_back ''u1'') =
     [(''b'', 1), (''c'', 3), (''d'', 4), (''e'', 5), (''f'', 6), (''g'', 7),
      (''h'', 8), (''i'', 9), (''j'', 10), (''k'', 0)] \<and>
   most_recent CHAT_HISTORY_LIMIT (sort_key snd (recorded demo_calls_clock_set_back ''u1'')) =
     [(''b'', 1), (''a'', 2), (''c'', 3), (''d'', 4), (''e'', 5), (''f'', 6), (''g'', 7),
      (''h'', 8), (''i'', 9), (''j'', 10)]"
  by (simp add: demo_run_clock_set_back demo_recorded_clock_set_back most_recent_def
      CHAT_HISTORY_LIMIT_def)

subsection \<open>Turns with an empty text\<close>

lemma save_user_message_below_limit:
  assumes "server_up env" "embed_query env m = Inr emb"
    and "length (filter (\<lambda>r. ch_user_id r = u) (chat_history db)) < CHAT_HISTORY_LIMIT"
  shows "save_user_message env now db u m =
          (Inr (), \<lparr>chat_history = chat_history db @
                      [\<lparr>ch_id = next_uuid db, ch_user_id = u, ch_message = m,
                        ch_embedding = emb, ch_timestamp = now\<rparr>],
                    pdf_embeddings = pdf_embeddings db,
                    next_uuid = Suc (next_uuid db)\<rparr>)"
  using assms
  by (simp add: save_user_message_def SessionLocal_def session_add_chat_def commit_def Let_def)

lemma count_after_save_at_limit:
  assumes wf: "wf_db db" and scan: "is_scan (scan_chat env)"
    and up: "server_up env" and e: "embed_query env m = Inr emb"
    and lim: "CHAT_HISTORY_LIMIT \<le> length (filter (\<lambda>r. ch_user_id r = u) (chat_history db))"
  shows "length (filter (\<lambda>r. ch_user_id r = u)
                  (chat_history (snd (save_user_message env now db u m))))
           = CHAT_HISTORY_LIMIT"
proof -
  let ?P = "\<lambda>r. ch_user_id r = u"
  let ?Q = "\<lambda>r. r \<notin> set (oldest env db u)"
  note o = oldest_at_limit[OF wf scan lim]
  have h: "chat_history (snd (save_user_message env now db u m))
           = filter ?Q (chat_history db) @
             [\<lparr>ch_id = next_uuid db, ch_user_id = u, ch_message = m,
               ch_embedding = emb, ch_timestamp = now\<rparr>]"
    unfolding save_user_message_success_wf[OF wf scan up e] by simp
  have sub: "set (oldest env db u) \<subseteq> set (filter ?P (chat_history db))"
    using oldest_subset[OF scan, of db u] by auto
  have d: "distinct (filter ?P (chat_history db))"
    using wf_db_distinct[OF wf] by simp
  have c: "filter ?P (filter ?Q (chat_history db)) = filter ?Q (filter ?P (chat_history db))"
    by (simp add: conj_commute)
  have "length (filter ?P (filter ?Q (chat_history db)))
        = length (filter ?P (chat_history db)) - length (oldest env db u)"
    unfolding c by (rule length_filter_not_in[OF d o(1) sub])
  with o(2) lim show ?thesis
    unfolding h by (simp add: CHAT_HISTORY_LIMIT_def)
qed

text \<open>
  C9. No document returned by \<open>retrieve_user_memory\<close> has an empty text: the answer is the
  list of the \<open>k\<close> nearest turns of the user with the turns of empty text removed, so it
  can be shorter than \<open>k\<close> although \<open>k\<close> turns match. A turn with an empty text is stored
  by \<open>save_user_message\<close> like any other and is a row of the user's history. The count of
  \<open>save_user_message\<close> is over all rows of the user, whatever their text: below the limit
  the new turn is appended and nothing is removed, and once the user has
  \<open>CHAT_HISTORY_LIMIT\<close> rows or more, empty ones included, a successful call marks
  \<open>count - CHAT_HISTORY_LIMIT + 1\<close> of them for deletion and leaves the user with
  \<open>CHAT_HISTORY_LIMIT\<close> rows.
\<close>

theorem retrieve_user_memory_skips_empty:
  "(\<forall>d \<in> set (retrieve_user_memory env db u q k). cd_page_content d \<noteq> [])
   \<and> (server_up env \<and> embed_query env q = Inr qe \<and> 0 \<le> k \<longrightarrow>
        retrieve_user_memory env db u q k
          = map chat_document (filter (\<lambda>r. ch_message r \<noteq> []) (nearest_chat env db u qe (nat k))))
   \<and> (server_up env \<and> embed_query env [] = Inr emb
        \<and> length (filter (\<lambda>r. ch_user_id r = u) (chat_history db)) < CHAT_HISTORY_LIMIT \<longrightarrow>
        chat_history (snd (save_user_message env now db u []))
          = chat_history db @ [\<lparr>ch_id = next_uuid db, ch_user_id = u, ch_message = [],
                                ch_embedding = emb, ch_timestamp = now\<rparr>])
   \<and> (wf_db db \<and> is_scan (scan_chat env) \<and> server_up env \<and> embed_query env m = Inr emb'
        \<and> CHAT_HISTORY_LIMIT \<le> length (filter (\<lambda>r. ch_user_id r = u) (chat_history db)) \<longrightarrow>
        length (oldest env db u)
          = length (filter (\<lambda>r. ch_user_id r = u) (chat_history db)) - CHAT_HISTORY_LIMIT + 1
        \<and> chat_history (snd (save_user_message env now db u m))
          = filter (\<lambda>r. r \<notin> set (oldest env db u)) (chat_history db) @
            [\<lparr>ch_id = next_uuid db, ch_user_id = u, ch_message = m,
              ch_embedding = emb', ch_timestamp = now\<rparr>]
        \<and> length (filter (\<lambda>r. ch_user_id r = u)
                    (chat_history (snd (save_user_message env now db u m))))
          = CHAT_HISTORY_LIMIT)"
proof -
  have 1: "\<forall>d \<in> set (retrieve_user_memory env db u q k). cd_page_content d \<noteq> []"
    by (auto simp: retrieve_user_memory_def retrieve_user_memory_try_def chat_document_def
             split: sum.splits if_splits)
  have 2: "server_up env \<and> embed_query env q = Inr qe \<and> 0 \<le> k \<longrightarrow>
        retrieve_user_memory env db u q k
          = map chat_document (filter (\<lambda>r. ch_message r \<noteq> []) (nearest_chat env db u qe (nat k)))"
    by (simp add: retrieve_user_memory_def retrieve_user_memory_try_def)
  have 3: "server_up env \<and> embed_query env [] = Inr emb
        \<and> length (filter (\<lambda>r. ch_user_id r = u) (chat_history db)) < CHAT_HISTORY_LIMIT \<longrightarrow>
        chat_history (snd (save_user_message env now db u []))
          = chat_history db @ [\<lparr>ch_id = next_uuid db, ch_user_id = u, ch_message = [],
                                ch_embedding = emb, ch_timestamp = now\<rparr>]"
    by (simp add: save_user_message_below_limit)
  have 4: "wf_db db \<and> is_scan (scan_chat env) \<and> server_up env \<and> embed_query env m = Inr emb'
        \<and> CHAT_HISTORY_LIMIT \<le> length (filter (\<lambda>r. ch_user_id r = u) (chat_history db)) \<longrightarrow>
        length (oldest env db u)
          = length (filter (\<lambda>r. ch_user_id r = u) (chat_history db)) - CHAT_HISTORY_LIMIT + 1
        \<and> chat_history (snd (save_user_message env now db u m))
          = filter (\<lambda>r. r \<notin> set (oldest env db u)) (chat_history db) @
            [\<lparr>ch_id = next_uuid db, ch_user_id = u, ch_message = m,
              ch_embedding = emb', ch_timestamp = now\<rparr>]
        \<and> length (filter (\<lambda>r. ch_user_id r = u)
                    (chat_history (snd (save_user_message env now db u m))))
          = CHAT_HISTORY_LIMIT"
  proof (intro impI, elim conjE)
    assume wf: "wf_db db" and scan: "is_scan (scan_chat env)" and up: "server_up env"
      and e: "embed_query env m = Inr emb'"
      and lim: "CHAT_HISTORY_LIMIT \<le> length (filter (\<lambda>r. ch_user_id r = u) (chat_history db))"
    have h: "chat_history (snd (save_user_message env now db u m))
          = filter (\<lambda>r. r \<notin> set (oldest env db u)) (chat_history db) @
            [\<lparr>ch_id = next_uuid db, ch_user_id = u, ch_message = m,
              ch_embedding = emb', ch_timestamp = now\<rparr>]"
      unfolding save_user_message_success_wf[OF wf scan up e] by simp
    show "length (oldest env db u)
          = length (filter (\<lambda>r. ch_user_id r = u) (chat_history db)) - CHAT_HISTORY_LIMIT + 1
        \<and> chat_history (snd (save_user_message env now db u m))
          = filter (\<lambda>r. r \<notin> set (oldest env db u)) (chat_history db) @
            [\<lparr>ch_id = next_uuid db, ch_user_id = u, ch_message = m,
              ch_embedding = emb', ch_timestamp = now\<rparr>]
        \<and> length (filter (\<lambda>r. ch_user_id r = u)
                    (chat_history (snd (save_user_message env now db u m))))
          = CHAT_HISTORY_LIMIT"
      by (intro conjI oldest_at_limit(2)[OF wf scan lim] h
          count_after_save_at_limit[OF wf scan up e lim])
  qed
  show ?thesis by (intro conjI 1 2 3 4)
qed

text \<open>
  \<open>u1\<close> has three turns; the nearest of the two asked for has an empty text, so one
  document is returned, and a turn with an empty text is stored. In \<open>demo_full_empty\<close>
  \<open>u1\<close> has ten turns, of which only six have a text: the next call finds the user at the
  limit, removes the oldest turn (one with an empty text) and leaves ten.
\<close>

lemma demo_recall:
  "retrieve_user_memory demo_env demo_chat ''u1'' ''12345'' 2 = [chat_document (turn 0 ''u1'' ''first'' 7 100)]"
  by (simp add: retrieve_user_memory_def retrieve_user_memory_try_def nearest_chat_def demo_defs)

lemma demo_full_empty_ready:
  "wf_db demo_full_empty"
  "CHAT_HISTORY_LIMIT
     \<le> length (filter (\<lambda>r. ch_user_id r = ''u1'') (chat_history demo_full_empty))"
  "length (filter (\<lambda>r. ch_user_id r = ''u1'' \<and> ch_message r \<noteq> []) (chat_history demo_full_empty)) = 6"
  "oldest demo_env demo_full_empty ''u1'' = [turn 0 ''u1'' [] 0 100]"
  by (simp_all add: wf_db_def demo_full_empty_def turn_def demo_env_def oldest_def
      CHAT_HISTORY_LIMIT_def)

theorem retrieve_user_memory_skips_empty_witness:
  "length (filter (\<lambda>r. ch_user_id r = ''u1'') (chat_history demo_chat)) = 3 \<and>
   map ch_message (nearest_chat demo_env demo_chat ''u1'' 5 2) = ['''', ''first''] \<and>
   map cd_page_content (retrieve_user_memory demo_env demo_chat ''u1'' ''12345'' 2) = [''first''] \<and>
   map ch_message (chat_history (snd (save_user_message demo_env 200 demo_chat ''u1'' [])))
     = [''first'', ''other'', '''', ''fourth'', ''''] \<and>
   wf_db demo_full_empty \<and> is_scan (scan_chat demo_env) \<and>
   map ch_message (chat_history demo_full_empty)
     = ['''', ''m1'', '''', ''m3'', '''', ''m5'', '''', ''m7'', ''m8'', ''m9''] \<and>
   length (filter (\<lambda>r. ch_user_id r = ''u1'' \<and> ch_message r \<noteq> []) (chat_history demo_full_empty)) = 6 \<and>
   CHAT_HISTORY_LIMIT
     \<le> length (filter (\<lambda>r. ch_user_id r = ''u1'') (chat_history demo_full_empty)) \<and>
   length (oldest demo_env demo_full_empty ''u1'') = 1 \<and>
   map ch_message (chat_history (snd (save_user_message demo_env 200 demo_full_empty ''u1'' ''new'')))
     = [''m1'', '''', ''m3'', '''', ''m5'', '''', ''m7'', ''m8'', ''m9'', ''new''] \<and>
   length (filter (\<lambda>r. ch_user_id r = ''u1'')
            (chat_history (snd (save_user_message demo_env 200 demo_full_empty ''u1'' ''new''))))
     = CHAT_HISTORY_LIMIT"
proof -
  have c: "length (filter (\<lambda>r. ch_user_id r = ''u1'') (chat_history demo_chat)) = 3"
    by (simp add: demo_defs)
  have n: "nearest_chat demo_env demo_chat ''u1'' 5 2 = [turn 2 ''u1'' [] 5 102, turn 0 ''u1'' ''first'' 7 100]"
    by (simp add: nearest_chat_def demo_defs)
  have up: "server_up demo_env" and e: "embed_query demo_env ''12345'' = Inr 5"
    and e0: "embed_query demo_env [] = Inr 0" and e1: "embed_query demo_env ''new'' = Inr 3"
    and sc: "is_scan (scan_chat demo_env)"
    by (simp_all add: demo_env_def is_scan_id)
  note t = retrieve_user_memory_skips_empty[where env=demo_env and db=demo_chat and u="''u1''"
      and q="''12345''" and k=2 and qe=5 and emb=0 and now=200]
  from t[THEN conjunct2, THEN conjunct1] up e have "retrieve_user_memory demo_env demo_chat ''u1'' ''12345'' 2
       = map chat_document (filter (\<lambda>r. ch_message r \<noteq> []) (nearest_chat demo_env demo_chat ''u1'' 5 (nat 2)))"
    by simp
  then have r: "map cd_page_content (retrieve_user_memory demo_env demo_chat ''u1'' ''12345'' 2) = [''first'']"
    by (simp add: n turn_def chat_document_def)
  from t[THEN conjunct2, THEN conjunct2, THEN conjunct1] up e0 c have "chat_history (snd (save_user_message demo_env 200 demo_chat ''u1'' []))
          = chat_history demo_chat @ [\<lparr>ch_id = next_uuid demo_chat, ch_user_id = ''u1'', ch_message = [],
                                ch_embedding = 0, ch_timestamp = 200\<rparr>]"
    by (simp add: CHAT_HISTORY_LIMIT_def)
  then have s: "map ch_message (chat_history (snd (save_user_message demo_env 200 demo_chat ''u1'' [])))
     = [''first'', ''other'', '''', ''fourth'', '''']"
    by (simp add: demo_chat_def turn_def)
  note t' = retrieve_user_memory_skips_empty[where env=demo_env and db=demo_full_empty
      and u="''u1''" and m="''new''" and emb'=3 and now=200]
  from t'[THEN conjunct2, THEN conjunct2, THEN conjunct2] demo_full_empty_ready(1,2) sc up e1
  have a: "chat_history (snd (save_user_message demo_env 200 demo_full_empty ''u1'' ''new''))
          = filter (\<lambda>r. r \<notin> set (oldest demo_env demo_full_empty ''u1'')) (chat_history demo_full_empty) @
            [\<lparr>ch_id = next_uuid demo_full_empty, ch_user_id = ''u1'', ch_message = ''new'',
              ch_embedding = 3, ch_timestamp = 200\<rparr>]"
    and b: "length (filter (\<lambda>r. ch_user_id r = ''u1'')
                    (chat_history (snd (save_user_message demo_env 200 demo_full_empty ''u1'' ''new''))))
          = CHAT_HISTORY_LIMIT"
    by blast+
  from a have m: "map ch_message (chat_history (snd (save_user_message demo_env 200 demo_full_empty ''u1'' ''new'')))
     = [''m1'', '''', ''m3'', '''', ''m5'', '''', ''m7'', ''m8'', ''m9'', ''new'']"
    by (simp add: demo_full_empty_ready(4)) (simp add: demo_full_empty_def turn_def)
  have l: "map ch_message (chat_history demo_full_empty)
     = ['''', ''m1'', '''', ''m3'', '''', ''m5'', '''', ''m7'', ''m8'', ''m9'']"
    by (simp add: demo_full_empty_def turn_def)
  have o1: "length (oldest demo_env demo_full_empty ''u1'') = 1"
    by (simp add: demo_full_empty_ready(4))
  have n': "map ch_message (nearest_chat demo_env demo_chat ''u1'' 5 2) = ['''', ''first'']"
    by (simp add: n turn_def)
  show ?thesis
    by (intro conjI c n' r s demo_full_empty_ready(1) sc l demo_full_empty_ready(3)
        demo_full_empty_ready(2) o1 m b)
qed

end
